theory Spec2Isabelle
  imports Complex_Main
begin

section \<open>Python values: errors, slices and list indexing\<close>

text \<open>
  The development embeds the gridspec geometry engine of \<^verbatim>\<open>proplot/subplots.py\<close>:
  the index translation of \<^verbatim>\<open>FlexibleGridSpec\<close>, the size solve
  \<^verbatim>\<open>_subplots_geometry\<close>, the panel insertion \<^verbatim>\<open>Figure._insert_row_column\<close>
  and the spacing loop of \<^verbatim>\<open>Figure._adjust_tight_layout\<close>.

  Python integers are \<open>int\<close>. Python floats are idealised as exact \<open>real\<close> numbers,
  so rounding is not represented. Every \<^verbatim>\<open>raise\<close> of the source is a value
  \<open>Inl e\<close>; a division by zero is \<open>Inl ZeroDivisionError\<close>, as for Python
  numbers. A leading underscore of a source name is dropped.
\<close>

datatype error =
    ValueError string
  | IndexError string
  | RuntimeError string
  | ZeroDivisionError
  | TypeError string
  | UnboundLocalError string

definition ebind :: "error + 'a \<Rightarrow> ('a \<Rightarrow> error + 'b) \<Rightarrow> error + 'b" where
  "ebind m f = (case m of Inl e \<Rightarrow> Inl e | Inr x \<Rightarrow> f x)"

definition pdiv :: "real \<Rightarrow> real \<Rightarrow> error + real" where
  "pdiv a b = (if b = 0 then Inl ZeroDivisionError else Inr (a / b))"

text \<open>A comprehension whose body may raise: the first error ends it.\<close>

fun emap :: "('a \<Rightarrow> error + 'b) \<Rightarrow> 'a list \<Rightarrow> error + 'b list" where
  "emap f [] = Inr []"
| "emap f (x # xs) = ebind (f x) (\<lambda>y. ebind (emap f xs) (\<lambda>ys. Inr (y # ys)))"

text \<open>A slice object \<^verbatim>\<open>slice(start, stop, step)\<close>; \<open>None\<close> is an omitted part.\<close>

datatype slice = Slice (slice_start: "int option") (slice_stop: "int option")
  (slice_step: "int option")

text \<open>
  The built-in \<^verbatim>\<open>slice.indices(length)\<close>: a negative bound counts from the end and
  is clamped to \<open>lower\<close>, a non-negative one is clamped to \<open>upper\<close>.
\<close>

definition slice_bound :: "int option \<Rightarrow> int \<Rightarrow> int \<Rightarrow> int \<Rightarrow> int \<Rightarrow> int" where
  "slice_bound v dflt lower upper len =
     (case v of
        None \<Rightarrow> dflt
      | Some i \<Rightarrow> if i < 0 then max (i + len) lower else min i upper)"

definition slice_indices :: "slice \<Rightarrow> int \<Rightarrow> error + int \<times> int \<times> int" where
  "slice_indices s len =
     (if len < 0 then Inl (ValueError ''length should not be negative'')
      else
        let stp = (case slice_step s of None \<Rightarrow> 1 | Some k \<Rightarrow> k) in
        if stp = 0 then Inl (ValueError ''slice step cannot be zero'')
        else
          let lower = (if stp < 0 then - 1 else 0);
              upper = (if stp < 0 then len - 1 else len);
              start = slice_bound (slice_start s) (if stp < 0 then upper else lower)
                        lower upper len;
              stop = slice_bound (slice_stop s) (if stp < 0 then lower else upper)
                        lower upper len
          in Inr (start, stop, stp))"

text \<open>The list slice \<^verbatim>\<open>xs[i:j]\<close> with integer bounds.\<close>

definition py_slice :: "'a list \<Rightarrow> int \<Rightarrow> int \<Rightarrow> 'a list" where
  "py_slice xs i j =
     (let n = int (length xs);
          a = (if i < 0 then max (i + n) 0 else min i n);
          b = (if j < 0 then max (j + n) 0 else min j n)
      in take (nat (b - a)) (drop (nat a) xs))"

text \<open>
  The list operations \<^verbatim>\<open>xs[i]\<close>, \<^verbatim>\<open>xs[i] = v\<close> and \<^verbatim>\<open>xs.insert(i, v)\<close> with an
  integer index: a negative index counts from the end, reading or assigning out of range
  raises, inserting clamps the position.
\<close>

definition py_nth :: "'a list \<Rightarrow> int \<Rightarrow> error + 'a" where
  "py_nth xs i =
     (let n = int (length xs); j = (if i < 0 then i + n else i) in
      if 0 \<le> j \<and> j < n then Inr (xs ! nat j)
      else Inl (IndexError ''list index out of range''))"

definition py_set :: "'a list \<Rightarrow> int \<Rightarrow> 'a \<Rightarrow> error + 'a list" where
  "py_set xs i v =
     (let n = int (length xs); j = (if i < 0 then i + n else i) in
      if 0 \<le> j \<and> j < n then Inr (xs[nat j := v])
      else Inl (IndexError ''list assignment index out of range''))"

definition py_insert :: "'a list \<Rightarrow> int \<Rightarrow> 'a \<Rightarrow> 'a list" where
  "py_insert xs i v =
     (let n = int (length xs); j = (if i < 0 then max (i + n) 0 else min i n) in
      take (nat j) xs @ v # drop (nat j) xs)"


text \<open>The substring test \<^verbatim>\<open>s in t\<close> on strings.\<close>

fun starts_with :: "string \<Rightarrow> string \<Rightarrow> bool" where
  "starts_with [] t = True"
| "starts_with (c # s) [] = False"
| "starts_with (c # s) (d # t) = (c = d \<and> starts_with s t)"

fun str_in :: "string \<Rightarrow> string \<Rightarrow> bool" where
  "str_in s [] = (s = [])"
| "str_in s (d # t) = (starts_with s (d # t) \<or> str_in s t)"


section \<open>FlexibleGridSpec and FlexibleSubplotSpec\<close>

text \<open>
  A \<^verbatim>\<open>FlexibleGridSpec\<close>: \<open>gs_nrows\<close>, \<open>gs_ncols\<close> are the attributes
  \<^verbatim>\<open>_nrows\<close>, \<^verbatim>\<open>_ncols\<close> that \<^verbatim>\<open>get_geometry\<close> returns (spaces included),
  \<open>nrows_active\<close>, \<open>ncols_active\<close> the counts without the space slots.
\<close>

record gridspec =
  gs_nrows :: int
  gs_ncols :: int
  nrows_active :: int
  ncols_active :: int
  width_ratios :: "real list"
  height_ratios :: "real list"
  gs_left :: real
  gs_bottom :: real
  gs_right :: real
  gs_top :: real

text \<open>
  A subplotspec refers to its gridspec, which is a \<^verbatim>\<open>FlexibleGridSpec\<close> or a matplotlib
  \<^verbatim>\<open>GridSpecFromSubplotSpec\<close>. The reference to a \<^verbatim>\<open>FlexibleGridSpec\<close> is kept as
  the geometry \<^verbatim>\<open>get_geometry\<close> returns for it (the rows and columns, spaces included),
  which no method changes once the gridspec is built; the ratios and margins that
  \<^verbatim>\<open>update\<close> replaces are read from the figure's gridspec. A
  \<^verbatim>\<open>GridSpecFromSubplotSpec\<close> has its rows, its columns and its \<^verbatim>\<open>_subplot_spec\<close>.
  Every axes carries its own chain of nested gridspecs here: two axes that share one
  \<^verbatim>\<open>GridSpecFromSubplotSpec\<close> object are not represented.
\<close>

datatype subplotspec =
    SubplotSpec (get_gridspec: gridspec_obj) (num1: int) (num2: "int option")
and gridspec_obj =
    Flexible int int
  | FromSubplotSpec int int subplotspec

datatype key = KInt int | KSlice slice

datatype index = Single key | Tuple "key list"

definition positem :: "int \<Rightarrow> int" where
  "positem sz = (if sz < 0 then 2 * (sz + 1) - 1 else sz * 2)"

definition normalize_key :: "key \<Rightarrow> int \<Rightarrow> error + int \<times> int" where
  "normalize_key k sz =
     (case k of
        KSlice s \<Rightarrow>
          ebind (slice_indices s sz) (\<lambda>(start, stop, stp).
            if stop > start then Inr (start, stop - 1)
            else Inl (IndexError ''Invalid index''))
      | KInt i \<Rightarrow>
          (let j = (if i < 0 then i + sz else i) in
           if 0 \<le> j \<and> j < sz then Inr (j, j)
           else Inl (IndexError ''Invalid index'')))"

text \<open>
  \<^verbatim>\<open>numpy.ravel_multi_index((num1, num2), (nrows, ncols))\<close> on the two pairs: the
  first pair holds the row indices, the second the column indices.
\<close>

definition ravel_multi_index ::
  "(int \<times> int) \<times> (int \<times> int) \<Rightarrow> int \<times> int \<Rightarrow> error + int \<times> int" where
  "ravel_multi_index idx dims =
     (case idx of ((r1, r2), (c1, c2)) \<Rightarrow>
      case dims of (nrows, ncols) \<Rightarrow>
        if 0 \<le> r1 \<and> r1 < nrows \<and> 0 \<le> r2 \<and> r2 < nrows \<and>
           0 \<le> c1 \<and> c1 < ncols \<and> 0 \<le> c2 \<and> c2 < ncols
        then Inr (r1 * ncols + c1, r2 * ncols + c2)
        else Inl (ValueError ''invalid entry in coordinates array''))"

definition getitem :: "gridspec \<Rightarrow> index \<Rightarrow> error + subplotspec" where
  "getitem g ky =
     (let nrows = gs_nrows g; ncols = gs_ncols g in
      ebind
        (case ky of
           Single k \<Rightarrow> normalize_key k (nrows_active g * ncols_active g)
         | Tuple [k1, k2] \<Rightarrow>
             ebind (normalize_key k1 (nrows_active g)) (\<lambda>n1.
             ebind (normalize_key k2 (ncols_active g)) (\<lambda>n2.
               ravel_multi_index (n1, n2) (nrows, ncols)))
         | Tuple _ \<Rightarrow> Inl (ValueError ''Invalid index''))
        (\<lambda>(n1, n2). Inr (SubplotSpec (Flexible nrows ncols) (positem n1) (Some (positem n2)))))"

fun get_geometry :: "gridspec_obj \<Rightarrow> int \<times> int" where
  "get_geometry (Flexible nrows ncols) = (nrows, ncols)"
| "get_geometry (FromSubplotSpec nrows ncols ss) = (nrows, ncols)"

text \<open>\<^verbatim>\<open>divmod\<close> raises on a zero divisor; \<open>div\<close> and \<open>mod\<close> on \<open>int\<close> round as Python does.\<close>

definition py_divmod :: "int \<Rightarrow> int \<Rightarrow> error + int \<times> int" where
  "py_divmod a b = (if b = 0 then Inl ZeroDivisionError else Inr (a div b, a mod b))"

definition get_active_rows_columns ::
  "subplotspec \<Rightarrow> error + int \<times> int \<times> int \<times> int \<times> int \<times> int" where
  "get_active_rows_columns ss =
     (case get_geometry (get_gridspec ss) of (nrows, ncols) \<Rightarrow>
        ebind (py_divmod (num1 ss) ncols) (\<lambda>(row1, col1).
        ebind (case num2 ss of
                 Some n2 \<Rightarrow> py_divmod n2 ncols
               | None \<Rightarrow> Inr (row1, col1)) (\<lambda>(row2, col2).
          Inr (nrows div 2, ncols div 2, row1 div 2, row2 div 2, col1 div 2, col2 div 2))))"


text \<open>
  The logical slice as a reader of the grid means it, stated without
  \<^verbatim>\<open>slice.indices\<close>: the indices \<open>j\<close> of the dimension, \<open>0 \<le> j < n\<close>, that are not
  before the start and are before the stop, where a negative bound counts from the end
  and an omitted bound does not restrict. Its inclusive endpoints are the first and the
  last of these indices; there are none when the run is empty.
\<close>

definition slice_members :: "slice \<Rightarrow> int \<Rightarrow> int list" where
  "slice_members s n =
     filter (\<lambda>j. (case slice_start s of None \<Rightarrow> True
                    | Some i \<Rightarrow> (if i < 0 then i + n else i) \<le> j) \<and>
                  (case slice_stop s of None \<Rightarrow> True
                    | Some i \<Rightarrow> j < (if i < 0 then i + n else i)))
            [0..n - 1]"

definition logical_endpoints :: "slice \<Rightarrow> int \<Rightarrow> (int \<times> int) option" where
  "logical_endpoints s n =
     (if slice_members s n = [] then None
      else Some (hd (slice_members s n), last (slice_members s n)))"


section \<open>The geometry solve\<close>

text \<open>
  The keyword arguments of \<^verbatim>\<open>_subplots_geometry\<close>. The aspect is a number or an
  iterable of numbers; the margins \<^verbatim>\<open>left\<close>, \<^verbatim>\<open>bottom\<close>, \<^verbatim>\<open>right\<close>, \<^verbatim>\<open>top\<close>
  carry the prefix \<open>kw_\<close>.
\<close>

datatype aspect_value = Scalar real | Iterable "real list"

record kwargs =
  nrows :: int
  ncols :: int
  aspect :: aspect_value
  xref :: "int \<times> int"
  yref :: "int \<times> int"
  width :: "real option"
  height :: "real option"
  axwidth :: "real option"
  axheight :: "real option"
  wspace :: "real list"
  hspace :: "real list"
  wratios :: "real list"
  hratios :: "real list"
  kw_left :: real
  kw_bottom :: real
  kw_right :: real
  kw_top :: real
  wpanels :: "string list"
  hpanels :: "string list"

record gridspec_kw =
  gk_ncols :: int
  gk_nrows :: int
  gk_wspace :: "real list"
  gk_hspace :: "real list"
  gk_width_ratios :: "real list"
  gk_height_ratios :: "real list"
  gk_left :: real
  gk_bottom :: real
  gk_right :: real
  gk_top :: real

text \<open>Lines 597 to 608: the six length checks, in the order of the source.\<close>

definition check_lengths :: "kwargs \<Rightarrow> error + unit" where
  "check_lengths kw =
     (if int (length (hratios kw)) \<noteq> nrows kw then Inl (ValueError ''hratios'')
      else if int (length (wratios kw)) \<noteq> ncols kw then Inl (ValueError ''wratios'')
      else if int (length (hspace kw)) \<noteq> nrows kw - 1 then Inl (ValueError ''hspaces'')
      else if int (length (wspace kw)) \<noteq> ncols kw - 1 then Inl (ValueError ''wspaces'')
      else if int (length (hpanels kw)) \<noteq> nrows kw then Inl (ValueError ''hpanel toggles'')
      else if int (length (wpanels kw)) \<noteq> ncols kw then Inl (ValueError ''wpanel toggles'')
      else Inr ())"

text \<open>
  Lines 614 to 616: \<^verbatim>\<open>mask\<close> is \<^verbatim>\<open>bool(s)\<close>, true for a non-empty tag, and
  \<^verbatim>\<open>ratio_idxs\<close> are the positions of the empty tags (the main slots).
\<close>

definition ratio_idxs :: "string list \<Rightarrow> nat list" where
  "ratio_idxs panels = filter (\<lambda>i. panels ! i = []) [0..<length panels]"

text \<open>
  Lines 620 to 622: the loop \<^verbatim>\<open>while panels[idx + offset] not in 'rbf'\<close>, run on the
  tags after position \<open>idx\<close>; reading past the end of the list raises.
\<close>

fun scan_offset :: "string list \<Rightarrow> nat \<Rightarrow> error + nat" where
  "scan_offset [] offset = Inl (IndexError ''list index out of range'')"
| "scan_offset (p # ps) offset =
     (if str_in p ''rbf'' then Inr offset else scan_offset ps (offset + 1))"

definition space_idxs :: "string list \<Rightarrow> error + nat list" where
  "space_idxs panels =
     emap (\<lambda>idx. ebind (scan_offset (drop (idx + 1) panels) 1)
                   (\<lambda>offset. Inr (idx + offset - 1)))
          (butlast (ratio_idxs panels))"

text \<open>
  Lines 626 to 634. The indices read here are in range once the length checks have
  passed (\<open>ratio_idxs_bound\<close>, \<open>space_idxs_bound\<close> below).
\<close>

record main_slots =
  idxs_ratios_h :: "nat list"
  idxs_ratios_w :: "nat list"
  hratios_main :: "real list"
  wratios_main :: "real list"
  hratios_panels :: "real list"
  wratios_panels :: "real list"
  hspace_main :: "real list"
  wspace_main :: "real list"

definition panel_ratios :: "real list \<Rightarrow> nat list \<Rightarrow> real list" where
  "panel_ratios ratios idxs =
     map snd (filter (\<lambda>(idx, ratio). idx \<notin> set idxs) (enumerate 0 ratios))"

definition main_slots_of :: "kwargs \<Rightarrow> error + main_slots" where
  "main_slots_of kw =
     ebind (space_idxs (hpanels kw)) (\<lambda>hs.
     ebind (space_idxs (wpanels kw)) (\<lambda>ws.
       Inr \<lparr> idxs_ratios_h = ratio_idxs (hpanels kw),
             idxs_ratios_w = ratio_idxs (wpanels kw),
             hratios_main = map (\<lambda>idx. hratios kw ! idx) (ratio_idxs (hpanels kw)),
             wratios_main = map (\<lambda>idx. wratios kw ! idx) (ratio_idxs (wpanels kw)),
             hratios_panels = panel_ratios (hratios kw) (ratio_idxs (hpanels kw)),
             wratios_panels = panel_ratios (wratios kw) (ratio_idxs (wpanels kw)),
             hspace_main = map (\<lambda>idx. hspace kw ! idx) hs,
             wspace_main = map (\<lambda>idx. wspace kw ! idx) ws \<rparr>))"

text \<open>Lines 638 to 647: the reference axes and the aspect as one number.\<close>

record refprops =
  dx :: int
  dy :: int
  rwspace :: real
  rhspace :: real
  rwratio :: real
  rhratio :: real
  aspect_num :: real

definition reference :: "kwargs \<Rightarrow> main_slots \<Rightarrow> error + refprops" where
  "reference kw m =
     (case xref kw of (x1, x2) \<Rightarrow> case yref kw of (y1, y2) \<Rightarrow>
      let dx' = x2 - x1 + 1; dy' = y2 - y1 + 1;
          ncols_main = length (wratios_main m); nrows_main = length (hratios_main m)
      in
      ebind (pdiv (real ncols_main * sum_list (py_slice (wratios_main m) x1 (x2 + 1)))
                  (real_of_int dx' * sum_list (wratios_main m))) (\<lambda>rw.
      ebind (pdiv (real nrows_main * sum_list (py_slice (hratios_main m) y1 (y2 + 1)))
                  (real_of_int dy' * sum_list (hratios_main m))) (\<lambda>rh.
      if rw = 0 \<or> rh = 0 then Inl (RuntimeError ''Something went wrong'')
      else
        ebind (case aspect kw of
                 Scalar a \<Rightarrow> Inr a
               | Iterable (a0 # a1 # rest) \<Rightarrow> pdiv a0 a1
               | Iterable _ \<Rightarrow> Inl (IndexError ''index out of range'')) (\<lambda>a.
          Inr \<lparr> dx = dx', dy = dy',
                rwspace = sum_list (py_slice (wspace_main m) x1 x2),
                rhspace = sum_list (py_slice (hspace_main m) y1 y2),
                rwratio = rw, rhratio = rh, aspect_num = a \<rparr>))))"

text \<open>
  The local variables of lines 652 to 683. A variable that is \<^verbatim>\<open>None\<close> or not yet
  bound is \<open>None\<close>.
\<close>

record sizes =
  s_width :: "real option"
  s_height :: "real option"
  s_axwidth :: "real option"
  s_axheight :: "real option"
  s_axwidth_all :: "real option"
  s_axheight_all :: "real option"
  auto_width :: bool
  auto_height :: bool

text \<open>Lines 659 and 660, and again 678 and 679: the height from the reference height.\<close>

definition height_from_axheight ::
  "kwargs \<Rightarrow> main_slots \<Rightarrow> refprops \<Rightarrow> sizes \<Rightarrow> error + sizes" where
  "height_from_axheight kw m r st =
     (case s_axheight st of
        None \<Rightarrow> Inl (TypeError ''axheight is None'')
      | Some ah \<Rightarrow>
          ebind (pdiv (real (length (hratios_main m)) * (ah - rhspace r))
                      (real_of_int (dy r) * rhratio r)) (\<lambda>aha.
            Inr (st\<lparr> s_axheight_all := Some aha,
                     s_height := Some (aha + kw_top kw + kw_bottom kw
                                       + sum_list (hspace kw) + sum_list (hratios_panels m)) \<rparr>)))"

text \<open>Lines 663 and 664, and again 682 and 683: the width from the reference width.\<close>

definition width_from_axwidth ::
  "kwargs \<Rightarrow> main_slots \<Rightarrow> refprops \<Rightarrow> sizes \<Rightarrow> error + sizes" where
  "width_from_axwidth kw m r st =
     (case s_axwidth st of
        None \<Rightarrow> Inl (TypeError ''axwidth is None'')
      | Some aw \<Rightarrow>
          ebind (pdiv (real (length (wratios_main m)) * (aw - rwspace r))
                      (real_of_int (dx r) * rwratio r)) (\<lambda>awa.
            Inr (st\<lparr> s_axwidth_all := Some awa,
                     s_width := Some (awa + kw_left kw + kw_right kw
                                      + sum_list (wspace kw) + sum_list (wratios_panels m)) \<rparr>)))"

text \<open>Lines 669 and 670: the reference height from the figure height.\<close>

definition axheight_from_height ::
  "kwargs \<Rightarrow> main_slots \<Rightarrow> refprops \<Rightarrow> sizes \<Rightarrow> error + sizes" where
  "axheight_from_height kw m r st =
     (case s_height st of
        None \<Rightarrow> Inr st
      | Some h \<Rightarrow>
          (let aha = h - kw_top kw - kw_bottom kw - sum_list (hspace kw)
                       - sum_list (hratios_panels m) in
           ebind (pdiv (aha * real_of_int (dy r) * rhratio r) (real (length (hratios_main m))))
             (\<lambda>q. Inr (st\<lparr> s_axheight_all := Some aha, s_axheight := Some (q + rhspace r) \<rparr>))))"

text \<open>Lines 672 and 673: the reference width from the figure width.\<close>

definition axwidth_from_width ::
  "kwargs \<Rightarrow> main_slots \<Rightarrow> refprops \<Rightarrow> sizes \<Rightarrow> error + sizes" where
  "axwidth_from_width kw m r st =
     (case s_width st of
        None \<Rightarrow> Inr st
      | Some w \<Rightarrow>
          (let awa = w - kw_left kw - kw_right kw - sum_list (wspace kw)
                       - sum_list (wratios_panels m) in
           ebind (pdiv (awa * real_of_int (dx r) * rwratio r) (real (length (wratios_main m))))
             (\<lambda>q. Inr (st\<lparr> s_axwidth_all := Some awa, s_axwidth := Some (q + rwspace r) \<rparr>))))"

text \<open>
  Lines 652 to 673. \<open>rc_axwidth\<close> stands for \<^verbatim>\<open>units(rc['subplots.axwidth'])\<close>, the
  configured default width of the reference axes.
\<close>

definition given_sizes ::
  "real \<Rightarrow> kwargs \<Rightarrow> main_slots \<Rightarrow> refprops \<Rightarrow> error + sizes" where
  "given_sizes rc_axwidth kw m r =
     (let st0 = \<lparr> s_width = width kw, s_height = height kw,
                  s_axwidth = axwidth kw, s_axheight = axheight kw,
                  s_axwidth_all = None, s_axheight_all = None,
                  auto_width = (width kw = None \<and> height kw \<noteq> None),
                  auto_height = (height kw = None \<and> width kw \<noteq> None) \<rparr>
      in
      if width kw = None \<and> height kw = None then
        (let st1 = (if s_axwidth st0 = None \<and> s_axheight st0 = None
                    then st0\<lparr> s_axwidth := Some rc_axwidth \<rparr> else st0) in
         ebind (if s_axheight st1 \<noteq> None
                then height_from_axheight kw m r (st1\<lparr> auto_width := True \<rparr>)
                else Inr st1) (\<lambda>st2.
         ebind (if s_axwidth st2 \<noteq> None
                then width_from_axwidth kw m r (st2\<lparr> auto_height := True \<rparr>)
                else Inr st2) (\<lambda>st3.
           Inr (if s_axwidth st3 \<noteq> None \<and> s_axheight st3 \<noteq> None
                then st3\<lparr> auto_width := False, auto_height := False \<rparr> else st3))))
      else
        ebind (axheight_from_height kw m r st0) (\<lambda>st1. axwidth_from_width kw m r st1))"

text \<open>Lines 676 to 683: the dimension that was not given follows from the aspect.\<close>

definition auto_sizes ::
  "kwargs \<Rightarrow> main_slots \<Rightarrow> refprops \<Rightarrow> sizes \<Rightarrow> error + sizes" where
  "auto_sizes kw m r st =
     (if auto_height st then
        (case s_axwidth st of
           None \<Rightarrow> Inl (TypeError ''axwidth is None'')
         | Some aw \<Rightarrow>
             ebind (pdiv aw (aspect_num r)) (\<lambda>ah.
               height_from_axheight kw m r (st\<lparr> s_axheight := Some ah \<rparr>)))
      else if auto_width st then
        (case s_axheight st of
           None \<Rightarrow> Inl (TypeError ''axheight is None'')
         | Some ah \<Rightarrow>
             width_from_axwidth kw m r (st\<lparr> s_axwidth := Some (ah * aspect_num r) \<rparr>))
      else Inr st)"

text \<open>
  The solved extents: the figure size and the total width and height left for the main
  axes, as they stand when line 684 is reached.
\<close>

record solved =
  sv_width :: real
  sv_height :: real
  axwidth_all :: real
  axheight_all :: real

definition solve_sizes :: "real \<Rightarrow> kwargs \<Rightarrow> main_slots \<Rightarrow> error + solved" where
  "solve_sizes rc_axwidth kw m =
     ebind (reference kw m) (\<lambda>r.
     ebind (given_sizes rc_axwidth kw m r) (\<lambda>st.
     ebind (auto_sizes kw m r st) (\<lambda>st'.
       case (s_axwidth_all st', s_axheight_all st', s_width st', s_height st') of
         (Some awa, Some aha, Some w, Some h) \<Rightarrow>
           Inr \<lparr> sv_width = w, sv_height = h, axwidth_all = awa, axheight_all = aha \<rparr>
       | _ \<Rightarrow> Inl (UnboundLocalError ''size not bound''))))"

text \<open>Lines 693 to 696: \<^verbatim>\<open>for idx, ratio in zip(idxs, main): ratios[idx] = ratio\<close>.\<close>

definition write_back :: "nat list \<Rightarrow> real list \<Rightarrow> real list \<Rightarrow> real list" where
  "write_back idxs main ratios = fold (\<lambda>(idx, ratio) xs. xs[idx := ratio]) (zip idxs main) ratios"

text \<open>
  Lines 691 and 692. The divisor is the sum of the main ratios, which is not zero here:
  \<open>reference\<close> has divided by a multiple of it.
\<close>

definition rescale :: "real \<Rightarrow> real list \<Rightarrow> real list" where
  "rescale extent main = map (\<lambda>ratio. extent * ratio / sum_list main) main"

text \<open>
  \<^verbatim>\<open>_subplots_geometry(**kwargs)\<close>. The result is the figure size, the gridspec
  keywords and the keyword dictionary. The lists \<^verbatim>\<open>wratios\<close> and \<^verbatim>\<open>hratios\<close> of the
  dictionary are the caller's list objects, and lines 693 to 696 assign into them: the
  third component is the state of the caller's arguments after the call.
\<close>

definition subplots_geometry ::
  "real \<Rightarrow> kwargs \<Rightarrow> error + (real \<times> real) \<times> gridspec_kw \<times> kwargs" where
  "subplots_geometry rc_axwidth kw =
     ebind (check_lengths kw) (\<lambda>u.
     ebind (main_slots_of kw) (\<lambda>m.
     ebind (solve_sizes rc_axwidth kw m) (\<lambda>sv.
       if axwidth_all sv < 0 then Inl (ValueError ''Not enough room for axes (width)'')
       else if axheight_all sv < 0 then Inl (ValueError ''Not enough room for axes (height)'')
       else
         let hratios' = write_back (idxs_ratios_h m)
                          (rescale (axheight_all sv) (hratios_main m)) (hratios kw);
             wratios' = write_back (idxs_ratios_w m)
                          (rescale (axwidth_all sv) (wratios_main m)) (wratios kw)
         in
         ebind (pdiv (kw_left kw) (sv_width sv)) (\<lambda>l.
         ebind (pdiv (kw_bottom kw) (sv_height sv)) (\<lambda>b.
         ebind (pdiv (kw_right kw) (sv_width sv)) (\<lambda>r.
         ebind (pdiv (kw_top kw) (sv_height sv)) (\<lambda>t.
           Inr ((sv_width sv, sv_height sv),
                \<lparr> gk_ncols = ncols kw, gk_nrows = nrows kw,
                  gk_wspace = wspace kw, gk_hspace = hspace kw,
                  gk_width_ratios = wratios', gk_height_ratios = hratios',
                  gk_left = l, gk_bottom = b, gk_right = 1 - r, gk_top = 1 - t \<rparr>,
                kw\<lparr> wratios := wratios', hratios := hratios' \<rparr>))))))))"


section \<open>Building and updating the gridspec\<close>

text \<open>
  \<^verbatim>\<open>numpy.repeat(x, (n,))\<close> as \<^verbatim>\<open>_spaces_as_ratios\<close> uses it: a list of one element
  is repeated \<open>n\<close> times, a negative count raises, any other list is kept.
\<close>

definition repeat_single :: "real list \<Rightarrow> int \<Rightarrow> error + real list" where
  "repeat_single xs n =
     (if length xs = 1 then
        (if n < 0 then Inl (ValueError ''negative dimensions are not allowed'')
         else Inr (replicate (nat n) (hd xs)))
      else Inr xs)"

text \<open>
  \<^verbatim>\<open>FlexibleGridSpec._spaces_as_ratios\<close>, called with the four lists of the gridspec
  keywords. After the four checks the lists have \<open>n\<close> ratios and \<open>n - 1\<close> spaces, and
  the two slice assignments \<^verbatim>\<open>final[::2] = ratios\<close>, \<^verbatim>\<open>final[1::2] = spaces\<close> put them
  in turn: this is \<open>splice\<close>. The result is the pair of the width and the height ratios.
\<close>

definition spaces_as_ratios ::
  "int \<Rightarrow> int \<Rightarrow> gridspec_kw \<Rightarrow> error + real list \<times> real list" where
  "spaces_as_ratios nrows_act ncols_act gk =
     ebind (repeat_single (gk_wspace gk) (ncols_act - 1)) (\<lambda>wspace'.
     ebind (repeat_single (gk_hspace gk) (nrows_act - 1)) (\<lambda>hspace'.
     ebind (repeat_single (gk_width_ratios gk) ncols_act) (\<lambda>wratios'.
     ebind (repeat_single (gk_height_ratios gk) nrows_act) (\<lambda>hratios'.
       if int (length hratios') \<noteq> nrows_act then Inl (ValueError ''hratios'')
       else if int (length wratios') \<noteq> ncols_act then Inl (ValueError ''wratios'')
       else if int (length wspace') \<noteq> ncols_act - 1 then Inl (ValueError ''width spacings'')
       else if int (length hspace') \<noteq> nrows_act - 1 then Inl (ValueError ''height spacings'')
       else Inr (splice wratios' wspace', splice hratios' hspace')))))"

text \<open>\<^verbatim>\<open>FlexibleGridSpec(figure, **gridspec_kw)\<close>.\<close>

definition FlexibleGridSpec :: "gridspec_kw \<Rightarrow> error + gridspec" where
  "FlexibleGridSpec gk =
     ebind (spaces_as_ratios (gk_nrows gk) (gk_ncols gk) gk) (\<lambda>(wratios', hratios').
       Inr \<lparr> gs_nrows = gk_nrows gk * 2 - 1, gs_ncols = gk_ncols gk * 2 - 1,
             nrows_active = gk_nrows gk, ncols_active = gk_ncols gk,
             width_ratios = wratios', height_ratios = hratios',
             gs_left = gk_left gk, gs_bottom = gk_bottom gk,
             gs_right = gk_right gk, gs_top = gk_top gk \<rparr>)"

text \<open>
  \<^verbatim>\<open>FlexibleGridSpec.update(**gridspec_kw)\<close>: the ratios and the margins are replaced,
  the keywords \<^verbatim>\<open>nrows\<close> and \<^verbatim>\<open>ncols\<close> are dropped, the geometry stays. Pushing the
  new positions to the axes is left to the rendering layer.
\<close>

definition gridspec_update :: "gridspec \<Rightarrow> gridspec_kw \<Rightarrow> error + gridspec" where
  "gridspec_update g gk =
     ebind (spaces_as_ratios (nrows_active g) (ncols_active g) gk) (\<lambda>(wratios', hratios').
       Inr (g\<lparr> width_ratios := wratios', height_ratios := hratios',
               gs_left := gk_left gk, gs_right := gk_right gk,
               gs_bottom := gk_bottom gk, gs_top := gk_top gk \<rparr>))"


section \<open>Inserting a panel row or column\<close>

text \<open>
  The figure: the keyword dictionary \<^verbatim>\<open>_subplots_kw\<close>, the user's spacing overrides
  \<^verbatim>\<open>_subplots_orig_kw\<close> (\<open>None\<close> where the user gave none), the main gridspec, the
  size in inches, and the list \<^verbatim>\<open>axs\<close> of line 1314 (every axes of the figure followed
  by its child axes). An entry of \<open>fig_axs\<close> is the subplotspec of the axes, or \<open>None\<close>
  for an object without \<^verbatim>\<open>get_subplotspec\<close>.
\<close>

record orig_kw =
  o_left :: "real option"
  o_right :: "real option"
  o_top :: "real option"
  o_bottom :: "real option"
  o_wspace :: "real option list"
  o_hspace :: "real option list"

record figure =
  subplots_kw :: kwargs
  subplots_orig_kw :: orig_kw
  gridspec_main :: gridspec
  size_inches :: "real \<times> real"
  fig_axs :: "subplotspec option list"

text \<open>
  The four lists and the count of the dimension the panel goes to: the columns for a
  left or right panel (\<^verbatim>\<open>w\<close>, \<^verbatim>\<open>ncols\<close>), the rows otherwise (\<^verbatim>\<open>h\<close>, \<^verbatim>\<open>nrows\<close>).
\<close>

record arrays =
  a_panels :: "string list"
  a_ratios :: "real list"
  a_spaces :: "real list"
  a_spaces_orig :: "real option list"
  a_count :: int

definition load_arrays :: "bool \<Rightarrow> figure \<Rightarrow> arrays" where
  "load_arrays lr fig =
     (let kw = subplots_kw fig; ok = subplots_orig_kw fig in
      if lr then \<lparr> a_panels = wpanels kw, a_ratios = wratios kw, a_spaces = wspace kw,
                   a_spaces_orig = o_wspace ok, a_count = ncols kw \<rparr>
      else \<lparr> a_panels = hpanels kw, a_ratios = hratios kw, a_spaces = hspace kw,
              a_spaces_orig = o_hspace ok, a_count = nrows kw \<rparr>)"

definition store_arrays :: "bool \<Rightarrow> arrays \<Rightarrow> figure \<Rightarrow> figure" where
  "store_arrays lr a fig =
     (if lr then
        fig\<lparr> subplots_kw := (subplots_kw fig)\<lparr> wpanels := a_panels a, wratios := a_ratios a,
                                                wspace := a_spaces a, ncols := a_count a \<rparr>,
             subplots_orig_kw := (subplots_orig_kw fig)\<lparr> o_wspace := a_spaces_orig a \<rparr> \<rparr>
      else
        fig\<lparr> subplots_kw := (subplots_kw fig)\<lparr> hpanels := a_panels a, hratios := a_ratios a,
                                                hspace := a_spaces a, nrows := a_count a \<rparr>,
             subplots_orig_kw := (subplots_orig_kw fig)\<lparr> o_hspace := a_spaces_orig a \<rparr> \<rparr>)"

text \<open>
  Line 1279: \<^verbatim>\<open>idx not in (-1, len(panels)) and panels[idx] == entry\<close>.
\<close>

definition slot_exists :: "string list \<Rightarrow> int \<Rightarrow> string \<Rightarrow> error + bool" where
  "slot_exists pnls idx entry =
     (if idx = - 1 \<or> idx = int (length pnls) then Inr False
      else ebind (py_nth pnls idx) (\<lambda>p. Inr (p = entry)))"

text \<open>
  Lines 1277 to 1294, on the lists of the dimension. \<open>units\<close> stands for
  \<^verbatim>\<open>proplot.utils.units\<close> on a number; \<^verbatim>\<open>None\<close> passes through it. The result is the
  lists after the edit, whether the slot existed, and the index \<^verbatim>\<open>idx\<close> as the remap
  of the axes reads it.
\<close>

definition edit_arrays ::
  "(real \<Rightarrow> real) \<Rightarrow> char \<Rightarrow> int \<Rightarrow> real \<Rightarrow> real \<Rightarrow> real option \<Rightarrow> bool \<Rightarrow> arrays
     \<Rightarrow> error + arrays \<times> bool \<times> int" where
  "edit_arrays units s idx ratio space space_orig fig_panel a =
     (let idx_space = idx - (if s \<in> set ''br'' then 1 else 0);
          idx_offset = (if s \<in> set ''tl'' then 1 else 0);
          entry = (if fig_panel then ''f'' else [s])
      in
      ebind (slot_exists (a_panels a) idx entry) (\<lambda>exists.
        if exists then
          ebind (py_nth (a_spaces_orig a) idx_space) (\<lambda>cur.
          ebind (if cur = None then py_set (a_spaces_orig a) idx_space (map_option units space_orig)
                 else Inr (a_spaces_orig a)) (\<lambda>so.
          ebind (py_nth so idx_space) (\<lambda>pinned.
          ebind (py_set (a_spaces a) idx_space (case pinned of Some v \<Rightarrow> v | None \<Rightarrow> space))
            (\<lambda>sp. Inr (a\<lparr> a_spaces := sp, a_spaces_orig := so \<rparr>, True, idx)))))
        else
          (let idx' = idx + idx_offset; idx_space' = idx_space + idx_offset in
           Inr (a\<lparr> a_count := a_count a + 1,
                    a_spaces_orig := py_insert (a_spaces_orig a) idx_space' space_orig,
                    a_spaces := py_insert (a_spaces a) idx_space' space,
                    a_ratios := py_insert (a_ratios a) idx' ratio,
                    a_panels := py_insert (a_panels a) idx' entry \<rparr>, False, idx'))))"

text \<open>
  \<^verbatim>\<open>SubplotSpec.get_topmost_subplotspec\<close> of matplotlib: the subplotspec itself on a
  plain gridspec, the topmost of the \<^verbatim>\<open>_subplot_spec\<close> on a \<^verbatim>\<open>GridSpecFromSubplotSpec\<close>.
\<close>

fun get_topmost_subplotspec :: "subplotspec \<Rightarrow> subplotspec" where
  "get_topmost_subplotspec (SubplotSpec (Flexible r c) n1 n2) = SubplotSpec (Flexible r c) n1 n2"
| "get_topmost_subplotspec (SubplotSpec (FromSubplotSpec r c ss) n1 n2) =
     get_topmost_subplotspec ss"

text \<open>Lines 1329 to 1332 for one coordinate: \<open>ins\<close> is the entry of \<^verbatim>\<open>inserts\<close>.\<close>

definition shift_coord :: "int option \<Rightarrow> int \<Rightarrow> int" where
  "shift_coord ins c = (case ins of None \<Rightarrow> c | Some i \<Rightarrow> if c \<ge> i then c + 1 else c)"

text \<open>
  Lines 1320 to 1340, the body of the loop for an axes that has a subplotspec; the result
  is the subplotspec the axes holds afterwards. \<^verbatim>\<open>topmost is subplotspec\<close> holds when
  the gridspec of the subplotspec is a plain one; \<^verbatim>\<open>topmost is igridspec._subplot_spec\<close>
  holds when that gridspec is nested and its \<^verbatim>\<open>_subplot_spec\<close> lies on a plain one.
\<close>

definition reassign_subplotspec ::
  "gridspec \<Rightarrow> char \<Rightarrow> int \<Rightarrow> subplotspec \<Rightarrow> error + subplotspec" where
  "reassign_subplotspec gridspec' s idx subplotspec' =
     (let inserts = (if s \<in> set ''lr'' then (None, None, Some idx, Some idx)
                     else (Some idx, Some idx, None, None));
          igridspec = get_gridspec subplotspec';
          topmost = get_topmost_subplotspec subplotspec'
      in
      ebind (get_active_rows_columns topmost) (\<lambda>(nrows', ncols', r1, r2, c1, c2).
        case inserts of (i0, i1, i2, i3) \<Rightarrow>
        let row1 = shift_coord i0 r1; row2 = shift_coord i1 r2;
            col1 = shift_coord i2 c1; col2 = shift_coord i3 c2
        in
        ebind (getitem gridspec'
                 (Tuple [KSlice (Slice (Some row1) (Some (row2 + 1)) None),
                         KSlice (Slice (Some col1) (Some (col2 + 1)) None)]))
          (\<lambda>subplotspec_new.
             case igridspec of
               Flexible r0 c0 \<Rightarrow> Inr subplotspec_new
             | FromSubplotSpec nr nc inner \<Rightarrow>
                 (case get_gridspec inner of
                    Flexible r0 c0 \<Rightarrow>
                      Inr (SubplotSpec (FromSubplotSpec nr nc subplotspec_new)
                             (num1 subplotspec') (num2 subplotspec'))
                  | FromSubplotSpec nr' nc' inner' \<Rightarrow>
                      Inl (ValueError ''Unexpected GridSpecFromSubplotSpec nesting.'')))))"

text \<open>The number of nested gridspecs between a subplotspec and the main gridspec.\<close>

fun nesting :: "subplotspec \<Rightarrow> nat" where
  "nesting (SubplotSpec (Flexible r0 c0) n1 n2) = 0"
| "nesting (SubplotSpec (FromSubplotSpec r c ss) n1 n2) = Suc (nesting ss)"

definition reassign_axes ::
  "gridspec \<Rightarrow> char \<Rightarrow> int \<Rightarrow> subplotspec option \<Rightarrow> error + subplotspec option" where
  "reassign_axes gridspec' s idx ax =
     (case ax of
        None \<Rightarrow> Inr None
      | Some ss \<Rightarrow> ebind (reassign_subplotspec gridspec' s idx ss) (\<lambda>ss'. Inr (Some ss')))"

text \<open>
  \<^verbatim>\<open>Figure._insert_row_column(side, idx, ratio, space, space_orig, figure)\<close>. The
  geometry solve assigns into the ratio lists of \<^verbatim>\<open>_subplots_kw\<close>, so the dictionary it
  returns is the figure's afterwards. The result is the figure and the gridspec returned.
\<close>

definition insert_row_column ::
  "(real \<Rightarrow> real) \<Rightarrow> real \<Rightarrow> figure \<Rightarrow> string \<Rightarrow> int \<Rightarrow> real \<Rightarrow> real \<Rightarrow> real option \<Rightarrow> bool
     \<Rightarrow> error + figure \<times> gridspec" where
  "insert_row_column units rc_axwidth fig side idx ratio space space_orig fig_panel =
     (case side of
        [] \<Rightarrow> Inl (IndexError ''string index out of range'')
      | s # rest \<Rightarrow>
          if s \<notin> set ''lrbt'' then Inl (ValueError ''Invalid side'')
          else
            let lr = (s \<in> set ''lr'') in
            ebind (edit_arrays units s idx ratio space space_orig fig_panel (load_arrays lr fig))
              (\<lambda>(a, exists, idx').
            let fig1 = store_arrays lr a fig in
            ebind (subplots_geometry rc_axwidth (subplots_kw fig1)) (\<lambda>(figsize, gk, kw').
            let fig2 = fig1\<lparr> subplots_kw := kw', size_inches := figsize \<rparr> in
            if exists then
              ebind (gridspec_update (gridspec_main fig2) gk) (\<lambda>g.
                Inr (fig2\<lparr> gridspec_main := g \<rparr>, g))
            else
              ebind (FlexibleGridSpec gk) (\<lambda>g.
              ebind (emap (reassign_axes g s idx') (fig_axs fig2)) (\<lambda>axs'.
                Inr (fig2\<lparr> gridspec_main := g, fig_axs := axs' \<rparr>, g))))))"


section \<open>The spacing loop of the tight layout\<close>

text \<open>
  An axes as the tight layout reads it. The four fields are what its methods
  \<^verbatim>\<open>_range_gridspec('x')\<close>, \<^verbatim>\<open>_range_gridspec('y')\<close>, \<^verbatim>\<open>_range_tightbbox('x')\<close> and
  \<^verbatim>\<open>_range_tightbbox('y')\<close> return (the methods belong to the axes module): the first
  and last active column, the first and last active row, and the extent of the measured
  bounding box along each direction.
\<close>

record tight_ax =
  range_gridspec_x :: "int \<times> int"
  range_gridspec_y :: "int \<times> int"
  range_tightbbox_x :: "real \<times> real"
  range_tightbbox_y :: "real \<times> real"

text \<open>\<^verbatim>\<open>xs[i]\<close> for an index that is not negative.\<close>

definition list_get :: "'a list \<Rightarrow> nat \<Rightarrow> error + 'a" where
  "list_get xs i =
     (if i < length xs then Inr (xs ! i) else Inl (IndexError ''list index out of range''))"

text \<open>
  Lines 1054 to 1058. The condition reads \<^verbatim>\<open>panels[i]\<close> first and \<^verbatim>\<open>panels[i+1]\<close>
  only behind a test of \<^verbatim>\<open>panels[i]\<close> that holds; the three tests of \<^verbatim>\<open>panels[i]\<close>
  exclude each other. The empty tag is \<open>[]\<close>.
\<close>

definition pad_for :: "real \<Rightarrow> real \<Rightarrow> string list \<Rightarrow> nat \<Rightarrow> error + real" where
  "pad_for axpad panelpad panels i =
     ebind (list_get panels i) (\<lambda>p.
       if p \<in> {''l'', ''t''} then
         ebind (list_get panels (i + 1)) (\<lambda>q.
           Inr (if q \<in> {''l'', ''t'', []} then panelpad else axpad))
       else if p \<in> {[], ''r'', ''b''} then
         ebind (list_get panels (i + 1)) (\<lambda>q.
           Inr (if q \<in> {''r'', ''b''} then panelpad else axpad))
       else if p = ''f'' then
         ebind (list_get panels (i + 1)) (\<lambda>q.
           Inr (if q = ''f'' then panelpad else axpad))
       else Inr axpad)"

text \<open>
  Lines 1065 to 1081 for the row or column \<open>j\<close>: the pair of axes, given by their
  positions in \<^verbatim>\<open>axs\<close>, that abut against the space \<open>i\<close>, if there is one.
  \<open>along_x\<close> is the test \<^verbatim>\<open>x == 'x'\<close>.
\<close>

definition abutting_pair ::
  "bool \<Rightarrow> (int \<times> int) list \<Rightarrow> (int \<times> int) list \<Rightarrow> int \<Rightarrow> int \<Rightarrow> (nat \<times> nat) option" where
  "abutting_pair along_x ralong racross i j =
     (let ks = [0..<length ralong];
          filt = (\<lambda>k. fst (racross ! k) \<le> j \<and> j \<le> snd (racross ! k))
      in
      if length (filter filt ks) < 2 then None
      else
        let idx1 = filter (\<lambda>k. filt k \<and> snd (ralong ! k) = i) ks;
            idx2 = filter (\<lambda>k. filt k \<and> fst (ralong ! k) = i + 1) ks
        in
        if length idx1 > 1 \<or> length idx2 > 2 then None
        else if idx1 = [] \<or> idx2 = [] then None
        else if along_x then Some (hd idx1, hd idx2)
        else Some (hd idx2, hd idx1))"

text \<open>
  Lines 1082 to 1090: the pair joins the first group that holds one of its axes, or
  forms a new group at the end. A group is a pair of sets of axes.
\<close>

fun add_pair :: "nat \<Rightarrow> nat \<Rightarrow> (nat list \<times> nat list) list \<Rightarrow> (nat list \<times> nat list) list" where
  "add_pair ax1 ax2 [] = [([ax1], [ax2])]"
| "add_pair ax1 ax2 ((group1, group2) # groups) =
     (if ax1 \<in> set group1 \<or> ax2 \<in> set group2
      then (List.insert ax1 group1, List.insert ax2 group2) # groups
      else (group1, group2) # add_pair ax1 ax2 groups)"

definition abutting_groups ::
  "bool \<Rightarrow> (int \<times> int) list \<Rightarrow> (int \<times> int) list \<Rightarrow> int \<Rightarrow> int \<Rightarrow> (nat list \<times> nat list) list" where
  "abutting_groups along_x ralong racross nacross i =
     fold (\<lambda>j groups.
             case abutting_pair along_x ralong racross i j of
               None \<Rightarrow> groups
             | Some (ax1, ax2) \<Rightarrow> add_pair ax1 ax2 groups)
          [0..nacross - 1] []"

text \<open>\<^verbatim>\<open>max\<close> and \<^verbatim>\<open>min\<close> of the values of a group, which is not empty.\<close>

definition py_max :: "real list \<Rightarrow> real" where
  "py_max xs = fold max (tl xs) (hd xs)"

definition py_min :: "real list \<Rightarrow> real" where
  "py_min xs = fold min (tl xs) (hd xs)"

text \<open>Lines 1094 to 1098: the measured separation of every group, in inches.\<close>

definition separations ::
  "(real \<times> real) list \<Rightarrow> real \<Rightarrow> (nat list \<times> nat list) list \<Rightarrow> error + real list" where
  "separations tightbbox dpi groups =
     emap (\<lambda>(group1, group2).
             let x1 = py_max (map (\<lambda>ax. snd (tightbbox ! ax)) group1);
                 x2 = py_min (map (\<lambda>ax. fst (tightbbox ! ax)) group2)
             in pdiv (x2 - x1) dpi)
          groups"

text \<open>Lines 1051 to 1102 for the space \<open>i\<close>: the value assigned to \<^verbatim>\<open>jspace[i]\<close>.\<close>

definition tight_space ::
  "real \<Rightarrow> real \<Rightarrow> real \<Rightarrow> bool \<Rightarrow> string list \<Rightarrow> tight_ax list \<Rightarrow> int \<Rightarrow>
     real list \<Rightarrow> real option list \<Rightarrow> nat \<Rightarrow> error + real" where
  "tight_space axpad panelpad dpi along_x panels axs nacross ispace ispace_orig i =
     (let space = ispace ! i; space_orig = ispace_orig ! i;
          ralong = map (if along_x then range_gridspec_x else range_gridspec_y) axs;
          racross = map (if along_x then range_gridspec_y else range_gridspec_x) axs;
          tightbbox = map (if along_x then range_tightbbox_x else range_tightbbox_y) axs
      in
      ebind (pad_for axpad panelpad panels i) (\<lambda>pad.
      ebind (separations tightbbox dpi
               (abutting_groups along_x ralong racross nacross (int i))) (\<lambda>jspaces.
        Inr (if jspaces \<noteq> [] then
               (case space_orig of
                  Some v \<Rightarrow> v
                | None \<Rightarrow> max 0 (space - py_min jspaces + pad))
             else space))))"

text \<open>
  Lines 1048 to 1103 for one dimension: \<^verbatim>\<open>jspace\<close> after the loop over
  \<^verbatim>\<open>enumerate(zip(ispace, ispace_orig))\<close>. The columns have \<open>along_x\<close> true, the
  tags \<^verbatim>\<open>wpanels\<close> and \<open>nacross\<close> the number of rows; the rows have \<open>along_x\<close>
  false, the tags \<^verbatim>\<open>hpanels\<close> and \<open>nacross\<close> the number of columns.
\<close>

definition tight_spaces ::
  "real \<Rightarrow> real \<Rightarrow> real \<Rightarrow> bool \<Rightarrow> string list \<Rightarrow> tight_ax list \<Rightarrow> int \<Rightarrow>
     real list \<Rightarrow> real option list \<Rightarrow> error + real list" where
  "tight_spaces axpad panelpad dpi along_x panels axs nacross ispace ispace_orig =
     (let n = min (length ispace) (length ispace_orig) in
      ebind (emap (tight_space axpad panelpad dpi along_x panels axs nacross ispace ispace_orig)
               [0..<n])
        (\<lambda>new. Inr (new @ drop n ispace)))"


section \<open>Example inputs\<close>

text \<open>The end-to-end example: a grid of two rows and two columns.\<close>

definition kw_2x2 :: kwargs where
  "kw_2x2 =
     \<lparr> nrows = 2, ncols = 2, aspect = Scalar 1, xref = (0, 0), yref = (0, 0),
       width = None, height = None, axwidth = Some 2, axheight = None,
       wspace = [0.2], hspace = [0.2], wratios = [1, 1], hratios = [1, 1],
       kw_left = 0.5, kw_bottom = 0.5, kw_right = 0.5, kw_top = 0.5,
       wpanels = [[], []], hpanels = [[], []] \<rparr>"

definition grid_2x2 :: gridspec where
  "grid_2x2 = \<lparr> gs_nrows = 3, gs_ncols = 3, nrows_active = 2, ncols_active = 2,
       width_ratios = [2, 0.2, 2], height_ratios = [2, 0.2, 2],
       gs_left = 5 / 52, gs_bottom = 5 / 52, gs_right = 47 / 52, gs_top = 47 / 52 \<rparr>"

definition kw_narrow :: kwargs where
  "kw_narrow = kw_2x2 \<lparr> width := Some 1, axwidth := None, kw_left := 0.6, kw_right := 0.6 \<rparr>"

definition kw_2x2_after :: kwargs where
  "kw_2x2_after = kw_2x2 \<lparr> wratios := [2, 2], hratios := [2, 2] \<rparr>"

text \<open>
  The figure of the end-to-end example after its first solve, with one axes placed on
  \<^verbatim>\<open>gridspec[0:2, 0:2]\<close>, and the same figure with the axes nested two gridspecs deep.
\<close>

definition fig_2x2 :: figure where
  "fig_2x2 =
     \<lparr> subplots_kw = kw_2x2_after,
       subplots_orig_kw = \<lparr> o_left = None, o_right = None, o_top = None, o_bottom = None,
                            o_wspace = [None], o_hspace = [None] \<rparr>,
       gridspec_main = grid_2x2,
       size_inches = (5.2, 5.2),
       fig_axs = [Some (SubplotSpec (Flexible 3 3) 0 (Some 8))] \<rparr>"

definition fig_nested :: figure where
  "fig_nested =
     fig_2x2 \<lparr> fig_axs :=
       [Some (SubplotSpec
                (FromSubplotSpec 1 1
                   (SubplotSpec
                      (FromSubplotSpec 1 2 (SubplotSpec (Flexible 3 3) 0 (Some 8)))
                      1 None))
                0 None)] \<rparr>"

text \<open>The example figure after a left panel of width 0.5 and space 0.1 was inserted.\<close>

definition grid_left :: gridspec where
  "grid_left = \<lparr> gs_nrows = 3, gs_ncols = 5, nrows_active = 2, ncols_active = 3,
       width_ratios = [0.5, 0.1, 2, 0.2, 2], height_ratios = [2, 0.2, 2],
       gs_left = 5 / 58, gs_bottom = 5 / 52, gs_right = 53 / 58, gs_top = 47 / 52 \<rparr>"

definition fig_2x2_left :: figure where
  "fig_2x2_left =
     \<lparr> subplots_kw = kw_2x2_after \<lparr> ncols := 3, wspace := [0.1, 0.2],
                                     wratios := [0.5, 2, 2], wpanels := [''l'', [], []] \<rparr>,
       subplots_orig_kw = \<lparr> o_left = None, o_right = None, o_top = None, o_bottom = None,
                            o_wspace = [None, None], o_hspace = [None] \<rparr>,
       gridspec_main = grid_left,
       size_inches = (5.8, 5.2),
       fig_axs = [Some (SubplotSpec (Flexible 3 5) 2 (Some 14))] \<rparr>"

text \<open>
  The example figure after a left panel was asked for at index 0 once (\<open>fig_l1\<close>) and
  twice (\<open>fig_l2\<close>), and after a right panel was asked for at index 2 once (\<open>fig_r1\<close>)
  and twice (\<open>fig_r2\<close>); the panels are 0.5 wide, the first space is 0.1 and the second 0.3.
\<close>

definition kw_l1 :: kwargs where
  "kw_l1 =
     \<lparr> nrows = 2, ncols = 3, aspect = Scalar 1, xref = (0, 0), yref = (0, 0),
       width = None, height = None, axwidth = Some 2, axheight = None,
       wspace = [1 / 5, 1 / 10], hspace = [1 / 5], wratios = [2, 1 / 2, 2], hratios = [2, 2],
       kw_left = 1 / 2, kw_bottom = 1 / 2, kw_right = 1 / 2, kw_top = 1 / 2,
       wpanels = [[], ''l'', []], hpanels = [[], []] \<rparr>"

definition grid_l1 :: gridspec where
  "grid_l1 =
     \<lparr> gs_nrows = 3, gs_ncols = 5, nrows_active = 2, ncols_active = 3,
       width_ratios = [2, 1 / 5, 1 / 2, 1 / 10, 2], height_ratios = [2, 1 / 5, 2],
       gs_left = 5 / 58, gs_bottom = 5 / 52, gs_right = 53 / 58, gs_top = 47 / 52 \<rparr>"

definition fig_l1 :: figure where
  "fig_l1 =
     \<lparr> subplots_kw = kw_l1,
       subplots_orig_kw = \<lparr> o_left = None, o_right = None, o_top = None, o_bottom = None,
                            o_wspace = [None, None], o_hspace = [None] \<rparr>,
       gridspec_main = grid_l1,
       size_inches = (29 / 5, 26 / 5),
       fig_axs = [Some (SubplotSpec (Flexible 3 5) 0 (Some 14))] \<rparr>"

definition kw_l2 :: kwargs where
  "kw_l2 =
     \<lparr> nrows = 2, ncols = 4, aspect = Scalar 1, xref = (0, 0), yref = (0, 0),
       width = None, height = None, axwidth = Some 2, axheight = None,
       wspace = [1 / 5, 3 / 10, 1 / 10], hspace = [1 / 5], wratios = [2, 1 / 2, 1 / 2, 2], hratios = [2, 2],
       kw_left = 1 / 2, kw_bottom = 1 / 2, kw_right = 1 / 2, kw_top = 1 / 2,
       wpanels = [[], ''l'', ''l'', []], hpanels = [[], []] \<rparr>"

definition grid_l2 :: gridspec where
  "grid_l2 =
     \<lparr> gs_nrows = 3, gs_ncols = 7, nrows_active = 2, ncols_active = 4,
       width_ratios = [2, 1 / 5, 1 / 2, 3 / 10, 1 / 2, 1 / 10, 2], height_ratios = [2, 1 / 5, 2],
       gs_left = 5 / 66, gs_bottom = 5 / 52, gs_right = 61 / 66, gs_top = 47 / 52 \<rparr>"

definition fig_l2 :: figure where
  "fig_l2 =
     \<lparr> subplots_kw = kw_l2,
       subplots_orig_kw = \<lparr> o_left = None, o_right = None, o_top = None, o_bottom = None,
                            o_wspace = [None, None, None], o_hspace = [None] \<rparr>,
       gridspec_main = grid_l2,
       size_inches = (33 / 5, 26 / 5),
       fig_axs = [Some (SubplotSpec (Flexible 3 7) 0 (Some 20))] \<rparr>"

definition kw_r1 :: kwargs where
  "kw_r1 =
     \<lparr> nrows = 2, ncols = 3, aspect = Scalar 1, xref = (0, 0), yref = (0, 0),
       width = None, height = None, axwidth = Some 2, axheight = None,
       wspace = [1 / 5, 1 / 10], hspace = [1 / 5], wratios = [2, 2, 1 / 2], hratios = [2, 2],
       kw_left = 1 / 2, kw_bottom = 1 / 2, kw_right = 1 / 2, kw_top = 1 / 2,
       wpanels = [[], [], ''r''], hpanels = [[], []] \<rparr>"

definition grid_r1 :: gridspec where
  "grid_r1 =
     \<lparr> gs_nrows = 3, gs_ncols = 5, nrows_active = 2, ncols_active = 3,
       width_ratios = [2, 1 / 5, 2, 1 / 10, 1 / 2], height_ratios = [2, 1 / 5, 2],
       gs_left = 5 / 58, gs_bottom = 5 / 52, gs_right = 53 / 58, gs_top = 47 / 52 \<rparr>"

definition fig_r1 :: figure where
  "fig_r1 =
     \<lparr> subplots_kw = kw_r1,
       subplots_orig_kw = \<lparr> o_left = None, o_right = None, o_top = None, o_bottom = None,
                            o_wspace = [None, None], o_hspace = [None] \<rparr>,
       gridspec_main = grid_r1,
       size_inches = (29 / 5, 26 / 5),
       fig_axs = [Some (SubplotSpec (Flexible 3 5) 0 (Some 12))] \<rparr>"

definition kw_r2 :: kwargs where
  "kw_r2 =
     \<lparr> nrows = 2, ncols = 3, aspect = Scalar 1, xref = (0, 0), yref = (0, 0),
       width = None, height = None, axwidth = Some 2, axheight = None,
       wspace = [1 / 5, 3 / 10], hspace = [1 / 5], wratios = [2, 2, 1 / 2], hratios = [2, 2],
       kw_left = 1 / 2, kw_bottom = 1 / 2, kw_right = 1 / 2, kw_top = 1 / 2,
       wpanels = [[], [], ''r''], hpanels = [[], []] \<rparr>"

definition grid_r2 :: gridspec where
  "grid_r2 =
     \<lparr> gs_nrows = 3, gs_ncols = 5, nrows_active = 2, ncols_active = 3,
       width_ratios = [2, 1 / 5, 2, 3 / 10, 1 / 2], height_ratios = [2, 1 / 5, 2],
       gs_left = 1 / 12, gs_bottom = 5 / 52, gs_right = 11 / 12, gs_top = 47 / 52 \<rparr>"

definition fig_r2 :: figure where
  "fig_r2 =
     \<lparr> subplots_kw = kw_r2,
       subplots_orig_kw = \<lparr> o_left = None, o_right = None, o_top = None, o_bottom = None,
                            o_wspace = [None, None], o_hspace = [None] \<rparr>,
       gridspec_main = grid_r2,
       size_inches = (6, 26 / 5),
       fig_axs = [Some (SubplotSpec (Flexible 3 5) 0 (Some 12))] \<rparr>"

text \<open>
  Three axes in one row: a main axes, its right panel and the main axes of the next
  column. The boxes are measured in dots, at 100 dots per inch.
\<close>

definition axs_row :: "tight_ax list" where
  "axs_row =
     [\<lparr> range_gridspec_x = (0, 0), range_gridspec_y = (0, 0),
         range_tightbbox_x = (0, 100), range_tightbbox_y = (0, 100) \<rparr>,
      \<lparr> range_gridspec_x = (1, 1), range_gridspec_y = (0, 0),
         range_tightbbox_x = (110, 150), range_tightbbox_y = (0, 100) \<rparr>,
      \<lparr> range_gridspec_x = (2, 2), range_gridspec_y = (0, 0),
         range_tightbbox_x = (170, 270), range_tightbbox_y = (0, 100) \<rparr>]"


section \<open>Index translation\<close>

lemma ebind_Inr [simp]: "ebind (Inr x) f = f x"
  by (simp add: ebind_def)

lemma ebind_Inl [simp]: "ebind (Inl e) f = Inl e"
  by (simp add: ebind_def)

lemma ebind_eq_Inr:
  "ebind m f = Inr y \<longleftrightarrow> (\<exists>x. m = Inr x \<and> f x = Inr y)"
  by (cases m) simp_all

lemma positem_div2: "positem a div 2 = a"
  by (simp add: positem_def)

lemma normalize_slice_Inr:
  "normalize_key (KSlice s) n = Inr (a, b) \<longleftrightarrow>
     (\<exists>start stop stp. slice_indices s n = Inr (start, stop, stp) \<and> start < stop \<and>
        a = start \<and> b = stop - 1)"
  by (auto simp: normalize_key_def ebind_eq_Inr split: if_splits)

lemma normalize_int_Inr:
  "normalize_key (KInt i) n = Inr (a, b) \<longleftrightarrow>
     (- n \<le> i \<and> i < n \<and> a = (if i < 0 then i + n else i) \<and> b = a)"
  by (auto simp: normalize_key_def Let_def)

lemma filter_interval:
  "filter (\<lambda>j. lo \<le> j \<and> j < hi) [0..n - 1] = [max lo 0..min hi n - 1]"
proof (rule sorted_distinct_set_unique)
  show "sorted (filter (\<lambda>j. lo \<le> j \<and> j < hi) [0..n - 1])"
    by (simp add: sorted_wrt_filter)
  show "set (filter (\<lambda>j. lo \<le> j \<and> j < hi) [0..n - 1]) = set [max lo 0..min hi n - 1]"
    by auto
qed simp_all

lemma slice_members_interval:
  "slice_members s n =
     [max (case slice_start s of None \<Rightarrow> 0 | Some i \<Rightarrow> if i < 0 then i + n else i) 0 ..
      min (case slice_stop s of None \<Rightarrow> n | Some i \<Rightarrow> if i < 0 then i + n else i) n - 1]"
proof -
  have "slice_members s n =
     filter (\<lambda>j. (case slice_start s of None \<Rightarrow> 0 | Some i \<Rightarrow> if i < 0 then i + n else i) \<le> j \<and>
                  j < (case slice_stop s of None \<Rightarrow> n | Some i \<Rightarrow> if i < 0 then i + n else i))
            [0..n - 1]"
    unfolding slice_members_def
    by (rule filter_cong) (auto split: option.splits)
  then show ?thesis by (simp only: filter_interval)
qed

lemma upto_hd: "a \<le> b \<Longrightarrow> hd [a..b] = (a::int)"
  by (simp add: upto_rec1)

lemma upto_last: "a \<le> b \<Longrightarrow> last [a..b] = (b::int)"
  by (simp add: upto_rec2)

lemma logical_endpoints_interval:
  "logical_endpoints s n =
     (let lo = max (case slice_start s of None \<Rightarrow> 0 | Some i \<Rightarrow> if i < 0 then i + n else i) 0;
          hi = min (case slice_stop s of None \<Rightarrow> n | Some i \<Rightarrow> if i < 0 then i + n else i) n
      in if lo < hi then Some (lo, hi - 1) else None)"
  unfolding logical_endpoints_def slice_members_interval Let_def
  by (auto simp: upto_hd upto_last)

lemma normalize_key_endpoints:
  assumes "slice_step s = None \<or> (\<exists>k. slice_step s = Some k \<and> 0 < k)" and "0 \<le> n"
  shows "normalize_key (KSlice s) n =
           (case logical_endpoints s n of
              None \<Rightarrow> Inl (IndexError ''Invalid index'')
            | Some p \<Rightarrow> Inr p)"
  using assms unfolding logical_endpoints_interval
  by (auto simp: normalize_key_def slice_indices_def slice_bound_def Let_def
      split: option.splits)

lemma divmod_even:
  assumes "0 \<le> c" "c < n" "(m::int) = 2 * n - 1"
  shows "(2 * (r * m + c)) div m = 2 * r \<and> (2 * (r * m + c)) mod m = 2 * c"
proof -
  have m: "0 < m" "2 * c < m" "0 \<le> 2 * c" using assms by auto
  have e: "2 * (r * m + c) = 2 * c + (2 * r) * m" by (simp add: algebra_simps)
  show ?thesis
    unfolding e using m by simp
qed

lemma logical_endpoints_bounds:
  assumes "logical_endpoints s n = Some (a, b)"
  shows "0 \<le> a \<and> a \<le> b \<and> b < n"
  using assms unfolding logical_endpoints_interval
  by (auto simp: Let_def split: if_splits)

lemma getitem_pair_coords:
  assumes wf: "gs_nrows g = 2 * nrows_active g - 1" "gs_ncols g = 2 * ncols_active g - 1"
    and n1: "normalize_key k1 (nrows_active g) = Inr (r1, r2)"
    and n2: "normalize_key k2 (ncols_active g) = Inr (c1, c2)"
    and r: "0 \<le> r1" "r1 \<le> r2" "r2 < nrows_active g"
    and c: "0 \<le> c1" "c1 \<le> c2" "c2 < ncols_active g"
  shows "getitem g (Tuple [k1, k2]) =
           Inr (SubplotSpec (Flexible (gs_nrows g) (gs_ncols g))
                  (2 * (r1 * gs_ncols g + c1)) (Some (2 * (r2 * gs_ncols g + c2)))) \<and>
         get_active_rows_columns
           (SubplotSpec (Flexible (gs_nrows g) (gs_ncols g))
              (2 * (r1 * gs_ncols g + c1)) (Some (2 * (r2 * gs_ncols g + c2))))
           = Inr (gs_nrows g div 2, gs_ncols g div 2, r1, r2, c1, c2)"
proof -
  let ?m = "gs_ncols g"
  have rv: "ravel_multi_index ((r1, r2), (c1, c2)) (gs_nrows g, ?m) = Inr (r1 * ?m + c1, r2 * ?m + c2)"
    using wf r c by (simp add: ravel_multi_index_def)
  have mpos: "0 < ?m" using wf c by simp
  have nn: "0 \<le> r1 * ?m + c1" "0 \<le> r2 * ?m + c2"
    using r c mpos by simp_all
  let ?ss = "SubplotSpec (Flexible (gs_nrows g) ?m) (2 * (r1 * ?m + c1)) (Some (2 * (r2 * ?m + c2)))"
  have gi: "getitem g (Tuple [k1, k2]) = Inr ?ss"
    using nn by (simp add: getitem_def n1 n2 rv positem_def Let_def)
  have d1: "(2 * (r1 * ?m + c1)) div ?m = 2 * r1 \<and> (2 * (r1 * ?m + c1)) mod ?m = 2 * c1"
    by (rule divmod_even [where n = "ncols_active g"]) (use c wf in auto)
  have d2: "(2 * (r2 * ?m + c2)) div ?m = 2 * r2 \<and> (2 * (r2 * ?m + c2)) mod ?m = 2 * c2"
    by (rule divmod_even [where n = "ncols_active g"]) (use c wf in auto)
  have "get_active_rows_columns ?ss = Inr (gs_nrows g div 2, ?m div 2, r1, r2, c1, c2)"
    using mpos d1 d2 by (simp add: get_active_rows_columns_def py_divmod_def)
  with gi show ?thesis by simp
qed

text \<open>
  Claim C2. The logical slice \<open>s\<close> over a dimension of size \<open>n\<close> is the run of indices
  \<open>slice_members s n\<close>, and its inclusive endpoints are the first and the last of them.
  For a slice without a step or with a positive step the normalisation returns exactly
  these endpoints, and it refuses the slice exactly when the run is empty. The endpoints
  \<open>(a, b)\<close> lie in the dimension, the doubling transform takes them to the physical pair
  \<open>(2a, 2b)\<close>, and integer division by two gives them back. Indexing a gridspec with a
  pair of such slices stores the doubled flat indices, and \<^verbatim>\<open>get_active_rows_columns\<close>
  reads the logical endpoints of both slices back from them. Over size 4 the slice
  \<^verbatim>\<open>[-2:]\<close> has the logical endpoints 2 and 3 and the physical endpoints 4 and 6.
\<close>

theorem roundtrip_indexing:
  assumes step: "slice_step s = None \<or> (\<exists>k. slice_step s = Some k \<and> 0 < k)"
    and n: "0 \<le> n"
  shows "normalize_key (KSlice s) n =
           (case logical_endpoints s n of
              None \<Rightarrow> Inl (IndexError ''Invalid index'')
            | Some p \<Rightarrow> Inr p) \<and>
         (normalize_key (KSlice s) n = Inr (a, b) \<longrightarrow>
            logical_endpoints s n = Some (a, b) \<and> 0 \<le> a \<and> a \<le> b \<and> b < n \<and>
            (positem a, positem b) = (2 * a, 2 * b) \<and>
            (positem a div 2, positem b div 2) = (a, b)) \<and>
         (gs_nrows g = 2 * nrows_active g - 1 \<and> gs_ncols g = 2 * ncols_active g - 1 \<and>
          (slice_step t = None \<or> (\<exists>k. slice_step t = Some k \<and> 0 < k)) \<and>
          logical_endpoints s (nrows_active g) = Some (r1, r2) \<and>
          logical_endpoints t (ncols_active g) = Some (c1, c2) \<longrightarrow>
            (\<exists>ss. getitem g (Tuple [KSlice s, KSlice t]) = Inr ss \<and>
                  (num1 ss, num2 ss) = (positem (r1 * gs_ncols g + c1),
                                        Some (positem (r2 * gs_ncols g + c2))) \<and>
                  get_active_rows_columns ss
                    = Inr (gs_nrows g div 2, gs_ncols g div 2, r1, r2, c1, c2))) \<and>
         logical_endpoints (Slice (Some (- 2)) None None) 4 = Some (2, 3) \<and>
         normalize_key (KSlice (Slice (Some (- 2)) None None)) 4 = Inr (2, 3) \<and>
         (positem 2, positem 3) = (4, 6)"
proof -
  note e = normalize_key_endpoints [OF step n]
  have p1: "logical_endpoints s n = Some (a, b) \<and> 0 \<le> a \<and> a \<le> b \<and> b < n \<and>
            (positem a, positem b) = (2 * a, 2 * b) \<and>
            (positem a div 2, positem b div 2) = (a, b)"
    if h: "normalize_key (KSlice s) n = Inr (a, b)"
  proof -
    have le: "logical_endpoints s n = Some (a, b)"
      using h unfolding e by (cases "logical_endpoints s n") auto
    note bd = logical_endpoints_bounds [OF le]
    show ?thesis
      using le bd by (simp add: positem_def)
  qed
  have p2: "\<exists>ss. getitem g (Tuple [KSlice s, KSlice t]) = Inr ss \<and>
                  (num1 ss, num2 ss) = (positem (r1 * gs_ncols g + c1),
                                        Some (positem (r2 * gs_ncols g + c2))) \<and>
                  get_active_rows_columns ss
                    = Inr (gs_nrows g div 2, gs_ncols g div 2, r1, r2, c1, c2)"
    if wf: "gs_nrows g = 2 * nrows_active g - 1" "gs_ncols g = 2 * ncols_active g - 1"
      and st: "slice_step t = None \<or> (\<exists>k. slice_step t = Some k \<and> 0 < k)"
      and ls: "logical_endpoints s (nrows_active g) = Some (r1, r2)"
      and lt: "logical_endpoints t (ncols_active g) = Some (c1, c2)"
  proof -
    note bs = logical_endpoints_bounds [OF ls]
    note bt = logical_endpoints_bounds [OF lt]
    have nr: "0 \<le> nrows_active g" "0 \<le> ncols_active g" using bs bt by auto
    have n1: "normalize_key (KSlice s) (nrows_active g) = Inr (r1, r2)"
      using normalize_key_endpoints [OF step nr(1)] ls by simp
    have n2: "normalize_key (KSlice t) (ncols_active g) = Inr (c1, c2)"
      using normalize_key_endpoints [OF st nr(2)] lt by simp
    have mpos: "0 < gs_ncols g" using wf bt by simp
    have nn: "0 \<le> r1 * gs_ncols g + c1" "0 \<le> r2 * gs_ncols g + c2"
      using bs bt mpos by simp_all
    have ps: "positem (r1 * gs_ncols g + c1) = 2 * (r1 * gs_ncols g + c1)"
      "positem (r2 * gs_ncols g + c2) = 2 * (r2 * gs_ncols g + c2)"
      using nn by (simp_all add: positem_def)
    show ?thesis
      using getitem_pair_coords [OF wf n1 n2] bs bt ps by simp
  qed
  have ex1: "logical_endpoints (Slice (Some (- 2)) None None) 4 = Some (2, 3)"
    by (simp add: logical_endpoints_interval)
  have ex2: "normalize_key (KSlice (Slice (Some (- 2)) None None)) 4 = Inr (2, 3)"
    by (simp add: normalize_key_def slice_indices_def slice_bound_def)
  have ex3: "(positem 2, positem 3) = (4, 6)"
    by (simp add: positem_def)
  show ?thesis
    using e p1 p2 ex1 ex2 ex3 by blast
qed

theorem roundtrip_indexing_witness:
  "normalize_key (KSlice (Slice (Some (- 2)) None None)) 4 = Inr (2, 3) \<and>
   logical_endpoints (Slice (Some (- 2)) None None) 4 = Some (2, 3) \<and>
   (positem 2, positem 3) = (4, 6) \<and> (positem 2 div 2, positem 3 div 2) = (2, 3) \<and>
   getitem grid_2x2 (Tuple [KSlice (Slice (Some (- 2)) None None),
                            KSlice (Slice (Some (- 1)) None None)])
     = Inr (SubplotSpec (Flexible 3 3) 2 (Some 8)) \<and>
   get_active_rows_columns (SubplotSpec (Flexible 3 3) 2 (Some 8)) = Inr (1, 1, 0, 1, 1, 1)"
proof -
  have st: "slice_step (Slice (Some (- 2)) None None) = None \<or>
            (\<exists>k. slice_step (Slice (Some (- 2)) None None) = Some k \<and> 0 < k)"
    by simp
  have g: "getitem grid_2x2 (Tuple [KSlice (Slice (Some (- 2)) None None),
                            KSlice (Slice (Some (- 1)) None None)])
     = Inr (SubplotSpec (Flexible 3 3) 2 (Some 8))"
    by (simp add: getitem_def grid_2x2_def normalize_key_def slice_indices_def slice_bound_def
        ravel_multi_index_def positem_def Let_def)
  have l: "logical_endpoints (Slice (Some (- 2)) None None) 2 = Some (0, 1)"
    "logical_endpoints (Slice (Some (- 1)) None None) 2 = Some (1, 1)"
    by (simp_all add: logical_endpoints_interval)
  show ?thesis
    using roundtrip_indexing [OF st, of 4 2 3 grid_2x2 "Slice (Some (- 1)) None None" 0 1 1 1]
      g l
    by (simp add: grid_2x2_def)
qed


lemma normalize_key_accepts:
  "(\<exists>p. normalize_key k m = Inr p) \<longleftrightarrow>
     (case k of
        KInt i \<Rightarrow> - m \<le> i \<and> i < m
      | KSlice t \<Rightarrow> (\<exists>a b c. slice_indices t m = Inr (a, b, c) \<and> a < b))"
proof (cases k)
  case (KInt i)
  then show ?thesis by (auto simp: normalize_key_def Let_def)
next
  case (KSlice t)
  then show ?thesis by (auto simp: normalize_slice_Inr)
qed

text \<open>
  Claim C10. A slice that \<^verbatim>\<open>slice.indices\<close> resolves to a start not below its stop (such
  as \<^verbatim>\<open>[0:0]\<close>) is refused with an \<^verbatim>\<open>IndexError\<close>, by the normalisation and by the
  indexing of the gridspec with it, alone or as the row or the column part of a pair. The
  normalisation accepts exactly the slices whose resolved start is below the stop and
  the integers \<open>i\<close> with \<open>-size \<le> i < size\<close>.
\<close>

theorem empty_slice_rejected:
  assumes "slice_indices s n = Inr (start, stop, stp)" and "stop \<le> start"
  shows "normalize_key (KSlice s) n = Inl (IndexError ''Invalid index'') \<and>
         (n = nrows_active g * ncols_active g \<longrightarrow>
            getitem g (Single (KSlice s)) = Inl (IndexError ''Invalid index'')) \<and>
         (n = nrows_active g \<longrightarrow>
            getitem g (Tuple [KSlice s, k2]) = Inl (IndexError ''Invalid index'')) \<and>
         (n = ncols_active g \<and> normalize_key k1 (nrows_active g) = Inr p \<longrightarrow>
            getitem g (Tuple [k1, KSlice s]) = Inl (IndexError ''Invalid index'')) \<and>
         ((\<exists>q. normalize_key k m = Inr q) \<longleftrightarrow>
            (case k of
               KInt i \<Rightarrow> - m \<le> i \<and> i < m
             | KSlice t \<Rightarrow> (\<exists>a b c. slice_indices t m = Inr (a, b, c) \<and> a < b)))"
proof -
  have e: "normalize_key (KSlice s) n = Inl (IndexError ''Invalid index'')"
    using assms by (simp add: normalize_key_def)
  show ?thesis
    using e normalize_key_accepts [of k m] by (auto simp: getitem_def Let_def)
qed

theorem empty_slice_rejected_witness:
  "normalize_key (KSlice (Slice (Some 0) (Some 0) None)) 2 = Inl (IndexError ''Invalid index'') \<and>
   getitem grid_2x2 (Tuple [KSlice (Slice (Some 0) (Some 0) None), KInt 0])
     = Inl (IndexError ''Invalid index'') \<and>
   getitem grid_2x2 (Tuple [KInt 0, KSlice (Slice (Some 0) (Some 0) None)])
     = Inl (IndexError ''Invalid index'')"
proof -
  have h: "slice_indices (Slice (Some 0) (Some 0) None) 2 = Inr (0, 0, 1)"
    by (simp add: slice_indices_def slice_bound_def)
  have n: "normalize_key (KInt 0) (nrows_active grid_2x2) = Inr (0, 0)"
    by (simp add: normalize_key_def grid_2x2_def)
  show ?thesis
    using empty_slice_rejected [OF h, of grid_2x2 "KInt 0" "KInt 0" "(0, 0)"] n
    by (simp add: grid_2x2_def)
qed



section \<open>Properties of the geometry solve\<close>

lemmas geom_defs = subplots_geometry_def check_lengths_def main_slots_of_def space_idxs_def
  ratio_idxs_def solve_sizes_def reference_def given_sizes_def auto_sizes_def
  height_from_axheight_def width_from_axwidth_def axheight_from_height_def axwidth_from_width_def
  write_back_def rescale_def panel_ratios_def py_slice_def pdiv_def



lemma write_back_length: "length (write_back idxs main ratios) = length ratios"
  unfolding write_back_def
  by (induction idxs main arbitrary: ratios rule: list_induct2') simp_all

lemma write_back_other:
  "i \<notin> set idxs \<Longrightarrow> write_back idxs main ratios ! i = ratios ! i"
  unfolding write_back_def
  by (induction idxs main arbitrary: ratios rule: list_induct2') auto







lemma main_slots_fields:
  assumes "main_slots_of kw = Inr m"
  shows "idxs_ratios_h m = ratio_idxs (hpanels kw)"
    and "idxs_ratios_w m = ratio_idxs (wpanels kw)"
    and "length (hratios_main m) = length (ratio_idxs (hpanels kw))"
    and "length (wratios_main m) = length (ratio_idxs (wpanels kw))"
  using assms by (auto simp: main_slots_of_def ebind_eq_Inr)

lemma check_lengths_Inr:
  "check_lengths kw = Inr u \<longleftrightarrow>
     int (length (hratios kw)) = nrows kw \<and> int (length (wratios kw)) = ncols kw \<and>
     int (length (hspace kw)) = nrows kw - 1 \<and> int (length (wspace kw)) = ncols kw - 1 \<and>
     int (length (hpanels kw)) = nrows kw \<and> int (length (wpanels kw)) = ncols kw"
  by (simp add: check_lengths_def)

lemma subplots_geometry_Inr:
  assumes "subplots_geometry rc kw = Inr (figsize, g, kw')"
  shows "\<exists>m sv. check_lengths kw = Inr () \<and> main_slots_of kw = Inr m \<and>
           solve_sizes rc kw m = Inr sv \<and> 0 \<le> axwidth_all sv \<and> 0 \<le> axheight_all sv \<and>
           figsize = (sv_width sv, sv_height sv) \<and>
           gk_width_ratios g = write_back (idxs_ratios_w m)
              (rescale (axwidth_all sv) (wratios_main m)) (wratios kw) \<and>
           gk_height_ratios g = write_back (idxs_ratios_h m)
              (rescale (axheight_all sv) (hratios_main m)) (hratios kw) \<and>
           gk_wspace g = wspace kw \<and> gk_hspace g = hspace kw \<and>
           gk_ncols g = ncols kw \<and> gk_nrows g = nrows kw \<and>
           kw' = kw\<lparr> wratios := gk_width_ratios g, hratios := gk_height_ratios g \<rparr>"
  using assms unfolding subplots_geometry_def
  by (auto simp: ebind_eq_Inr Let_def split: if_splits)


lemma geometry_2x2: "subplots_geometry rc kw_2x2 =
   Inr ((5.2, 5.2),
      \<lparr>gk_ncols = 2, gk_nrows = 2, gk_wspace = [0.2], gk_hspace = [0.2],
         gk_width_ratios = [2, 2], gk_height_ratios = [2, 2],
         gk_left = 5 / 52, gk_bottom = 5 / 52, gk_right = 47 / 52,
         gk_top = 47 / 52\<rparr>, kw_2x2\<lparr> wratios := [2, 2], hratios := [2, 2] \<rparr>)"
  by (simp add: geom_defs kw_2x2_def upt_rec Let_def)

text \<open>
  Claim C1. Two rows and two columns with uniform ratios, a reference width of 2, aspect
  1, margins of 0.5 on the four sides, spaces of 0.2, the reference axes in the single
  cell \<open>(0, 0)\<close> and no figure width or height: the solved figure is 5.2 wide and 5.2
  high, which is two cells of 2, one gap of 0.2 and two margins of 0.5.
\<close>

theorem end_to_end_2x2:
  "subplots_geometry rc kw_2x2 =
   Inr ((5.2, 5.2),
      \<lparr>gk_ncols = 2, gk_nrows = 2, gk_wspace = [0.2], gk_hspace = [0.2],
         gk_width_ratios = [2, 2], gk_height_ratios = [2, 2],
         gk_left = 5 / 52, gk_bottom = 5 / 52, gk_right = 47 / 52,
         gk_top = 47 / 52\<rparr>, kw_2x2\<lparr> wratios := [2, 2], hratios := [2, 2] \<rparr>) \<and>
   (5.2 :: real) = 2 * 2 + 0.2 + 0.5 + 0.5"
  by (simp add: geometry_2x2)

theorem end_to_end_2x2_witness:
  "fst (projr (subplots_geometry 0 kw_2x2)) = (5.2, 5.2)"
  using end_to_end_2x2 [of 0] by simp



lemma axheight_from_height_keeps:
  assumes "axheight_from_height kw m r st = Inr st'"
  shows "s_width st' = s_width st \<and> s_axwidth_all st' = s_axwidth_all st \<and>
         auto_width st' = auto_width st \<and> auto_height st' = auto_height st"
  using assms
  by (auto simp: axheight_from_height_def Let_def ebind_eq_Inr split: option.splits)

lemma axwidth_from_width_sets:
  assumes "axwidth_from_width kw m r st = Inr st'" and "s_width st = Some w"
  shows "s_axwidth_all st' = Some (w - kw_left kw - kw_right kw - sum_list (wspace kw)
                                     - sum_list (wratios_panels m)) \<and>
         auto_width st' = auto_width st \<and> auto_height st' = auto_height st"
  using assms
  by (auto simp: axwidth_from_width_def Let_def ebind_eq_Inr)

lemma height_from_axheight_keeps:
  assumes "height_from_axheight kw m r st = Inr st'"
  shows "s_axwidth_all st' = s_axwidth_all st"
  using assms
  by (auto simp: height_from_axheight_def ebind_eq_Inr split: option.splits)

lemma solve_sizes_Inr:
  assumes "solve_sizes rc kw m = Inr sv"
  shows "\<exists>r st st'. reference kw m = Inr r \<and> given_sizes rc kw m r = Inr st \<and>
           auto_sizes kw m r st = Inr st' \<and>
           s_axwidth_all st' = Some (axwidth_all sv) \<and>
           s_axheight_all st' = Some (axheight_all sv) \<and>
           s_width st' = Some (sv_width sv) \<and> s_height st' = Some (sv_height sv)"
proof -
  obtain r st st' where r: "reference kw m = Inr r" and g: "given_sizes rc kw m r = Inr st"
    and a: "auto_sizes kw m r st = Inr st'"
    and c: "(case (s_axwidth_all st', s_axheight_all st', s_width st', s_height st') of
         (Some awa, Some aha, Some w, Some h) \<Rightarrow>
           Inr \<lparr> sv_width = w, sv_height = h, axwidth_all = awa, axheight_all = aha \<rparr>
       | _ \<Rightarrow> Inl (UnboundLocalError ''size not bound'')) = Inr sv"
    using assms unfolding solve_sizes_def ebind_eq_Inr by blast
  from c have "s_axwidth_all st' = Some (axwidth_all sv) \<and>
           s_axheight_all st' = Some (axheight_all sv) \<and>
           s_width st' = Some (sv_width sv) \<and> s_height st' = Some (sv_height sv)"
    by (cases "s_axwidth_all st'"; cases "s_axheight_all st'"; cases "s_width st'";
        cases "s_height st'") auto
  with r g a show ?thesis by blast
qed

lemma solve_sizes_width_given:
  assumes w: "width kw = Some w" and sv: "solve_sizes rc kw m = Inr sv"
  shows "axwidth_all sv = w - kw_left kw - kw_right kw - sum_list (wspace kw)
                            - sum_list (wratios_panels m)"
proof -
  obtain r st st' where g: "given_sizes rc kw m r = Inr st"
    and a: "auto_sizes kw m r st = Inr st'"
    and fin: "s_axwidth_all st' = Some (axwidth_all sv)"
    using solve_sizes_Inr [OF sv] by blast
  let ?st0 = "\<lparr> s_width = Some w, s_height = height kw,
                  s_axwidth = axwidth kw, s_axheight = axheight kw,
                  s_axwidth_all = None, s_axheight_all = None,
                  auto_width = False, auto_height = (height kw = None) \<rparr>"
  obtain st1 where s1: "axheight_from_height kw m r ?st0 = Inr st1"
    and s2: "axwidth_from_width kw m r st1 = Inr st"
    using g w by (auto simp: given_sizes_def Let_def ebind_eq_Inr)
  have k1: "s_width st1 = Some w" "auto_width st1 = False"
    using axheight_from_height_keeps [OF s1] by simp_all
  have k2: "s_axwidth_all st = Some (w - kw_left kw - kw_right kw - sum_list (wspace kw)
                                     - sum_list (wratios_panels m))" "auto_width st = False"
    using axwidth_from_width_sets [OF s2 k1(1)] k1(2) by simp_all
  have "s_axwidth_all st' = s_axwidth_all st"
    using a k2(2) height_from_axheight_keeps unfolding auto_sizes_def
    by (auto simp: ebind_eq_Inr split: if_splits option.splits)
  then show ?thesis using fin k2(1) by simp
qed

lemma narrow_raises:
  "subplots_geometry rc kw_narrow = Inl (ValueError ''Not enough room for axes (width)'')"
  by (simp add: geom_defs kw_narrow_def kw_2x2_def upt_rec Let_def)

text \<open>
  Claim C6. When the extents are solved and the main width or the main height is
  negative, the solve raises a \<^verbatim>\<open>ValueError\<close>; a result is returned only with both
  extents non-negative. A figure width smaller than the left and right margins together
  (with spaces and ratios that are not negative) never gives a result, and a width of 1
  with margins of 0.6 on both sides raises the \<^verbatim>\<open>ValueError\<close>.
\<close>

theorem not_enough_room:
  "(check_lengths kw = Inr () \<and> main_slots_of kw = Inr m \<and> solve_sizes rc kw m = Inr sv \<and>
      (axwidth_all sv < 0 \<or> axheight_all sv < 0)
      \<longrightarrow> (\<exists>msg. subplots_geometry rc kw = Inl (ValueError msg))) \<and>
   (subplots_geometry rc kw = Inr res
      \<longrightarrow> (\<exists>m' sv'. main_slots_of kw = Inr m' \<and> solve_sizes rc kw m' = Inr sv' \<and>
             0 \<le> axwidth_all sv' \<and> 0 \<le> axheight_all sv')) \<and>
   (width kw = Some w \<and> w < kw_left kw + kw_right kw \<and> (\<forall>x \<in> set (wspace kw). 0 \<le> x) \<and>
      (\<forall>x \<in> set (wratios kw). 0 \<le> x)
      \<longrightarrow> subplots_geometry rc kw \<noteq> Inr res) \<and>
   subplots_geometry rc kw_narrow = Inl (ValueError ''Not enough room for axes (width)'')"
proof -
  have a: "\<exists>msg. subplots_geometry rc kw = Inl (ValueError msg)"
    if "check_lengths kw = Inr ()" "main_slots_of kw = Inr m" "solve_sizes rc kw m = Inr sv"
       "axwidth_all sv < 0 \<or> axheight_all sv < 0"
    using that by (auto simp: subplots_geometry_def)
  have b: "\<exists>m' sv'. main_slots_of kw = Inr m' \<and> solve_sizes rc kw m' = Inr sv' \<and>
             0 \<le> axwidth_all sv' \<and> 0 \<le> axheight_all sv'"
    if "subplots_geometry rc kw = Inr res"
  proof -
    obtain figsize g kw' where "res = (figsize, g, kw')" by (cases res) auto
    with that subplots_geometry_Inr show ?thesis by blast
  qed
  have c: "subplots_geometry rc kw \<noteq> Inr res"
    if w: "width kw = Some w" and lt: "w < kw_left kw + kw_right kw"
      and sp: "\<forall>x \<in> set (wspace kw). 0 \<le> x" and ra: "\<forall>x \<in> set (wratios kw). 0 \<le> x"
  proof
    assume r: "subplots_geometry rc kw = Inr res"
    obtain figsize g kw' where "res = (figsize, g, kw')" by (cases res) auto
    with r obtain m' sv' where m': "main_slots_of kw = Inr m'"
      and sv': "solve_sizes rc kw m' = Inr sv'" and nn: "0 \<le> axwidth_all sv'"
      using subplots_geometry_Inr by blast
    have "wratios_panels m' = panel_ratios (wratios kw) (ratio_idxs (wpanels kw))"
      using m' by (auto simp: main_slots_of_def ebind_eq_Inr)
    then have "set (wratios_panels m') \<subseteq> set (wratios kw)"
      by (auto simp: panel_ratios_def in_set_enumerate_eq)
    then have p: "0 \<le> sum_list (wratios_panels m')"
      using ra by (intro sum_list_nonneg) auto
    have q: "0 \<le> sum_list (wspace kw)"
      using sp by (intro sum_list_nonneg) auto
    show False
      using solve_sizes_width_given [OF w sv'] nn lt p q by simp
  qed
  show ?thesis
    using a b c narrow_raises by blast
qed

theorem not_enough_room_witness:
  "subplots_geometry 0 kw_narrow = Inl (ValueError ''Not enough room for axes (width)'') \<and>
   width kw_narrow = Some 1 \<and> (1::real) < kw_left kw_narrow + kw_right kw_narrow"
  using not_enough_room [of kw_narrow undefined 0 undefined undefined 1]
  by (simp add: kw_narrow_def kw_2x2_def)

text \<open>
  Claim C9, as stated, fails: the solve assigns into the ratio lists of its caller. On
  the example of two rows and two columns the caller's \<^verbatim>\<open>wratios\<close> are \<open>[1, 1]\<close>
  before the call and \<open>[2, 2]\<close> after it.
\<close>

theorem geometry_mutates_ratios:
  "subplots_geometry 0 kw_2x2 =
     Inr ((5.2, 5.2),
      \<lparr>gk_ncols = 2, gk_nrows = 2, gk_wspace = [0.2], gk_hspace = [0.2],
         gk_width_ratios = [2, 2], gk_height_ratios = [2, 2],
         gk_left = 5 / 52, gk_bottom = 5 / 52, gk_right = 47 / 52,
         gk_top = 47 / 52\<rparr>, kw_2x2_after) \<and>
   wratios kw_2x2 = [1, 1] \<and> wratios kw_2x2_after = [2, 2] \<and> kw_2x2_after \<noteq> kw_2x2"
proof -
  have "wratios kw_2x2_after \<noteq> wratios kw_2x2"
    by (simp add: kw_2x2_after_def kw_2x2_def)
  then have "kw_2x2_after \<noteq> kw_2x2" by auto
  then show ?thesis
    by (simp add: geometry_2x2 kw_2x2_after_def) (simp add: kw_2x2_def)
qed

text \<open>
  Claim C9, amended. The solve is a function of its keyword arguments and of the
  configured default width: equal inputs give equal outputs. Of the caller's arguments
  it changes the two ratio lists only, which become the returned width and height ratios:
  their lengths and their panel slots are as before. The space lists are unchanged and
  are returned as they were given.
\<close>

theorem geometry_frame:
  assumes "subplots_geometry rc kw = Inr (figsize, g, kw')"
  shows "(\<forall>rc2 kw2. rc2 = rc \<and> kw2 = kw \<longrightarrow> subplots_geometry rc2 kw2 = Inr (figsize, g, kw')) \<and>
         kw' = kw\<lparr> wratios := gk_width_ratios g, hratios := gk_height_ratios g \<rparr> \<and>
         wspace kw' = wspace kw \<and> hspace kw' = hspace kw \<and>
         gk_wspace g = wspace kw \<and> gk_hspace g = hspace kw \<and>
         length (wratios kw') = length (wratios kw) \<and>
         length (hratios kw') = length (hratios kw) \<and>
         (\<forall>i. i \<notin> set (ratio_idxs (wpanels kw)) \<longrightarrow> wratios kw' ! i = wratios kw ! i) \<and>
         (\<forall>i. i \<notin> set (ratio_idxs (hpanels kw)) \<longrightarrow> hratios kw' ! i = hratios kw ! i)"
proof -
  obtain m sv where m: "main_slots_of kw = Inr m" and sv: "solve_sizes rc kw m = Inr sv"
    and gw: "gk_width_ratios g = write_back (idxs_ratios_w m)
              (rescale (axwidth_all sv) (wratios_main m)) (wratios kw)"
    and gh: "gk_height_ratios g = write_back (idxs_ratios_h m)
              (rescale (axheight_all sv) (hratios_main m)) (hratios kw)"
    using subplots_geometry_Inr [OF assms] by blast
  have sp: "gk_wspace g = wspace kw" "gk_hspace g = hspace kw"
    using subplots_geometry_Inr [OF assms] by blast+
  have upd: "kw' = kw\<lparr> wratios := gk_width_ratios g, hratios := gk_height_ratios g \<rparr>"
    using subplots_geometry_Inr [OF assms] by (elim exE conjE)
  note f = main_slots_fields [OF m]
  have "\<forall>i. i \<notin> set (ratio_idxs (wpanels kw)) \<longrightarrow> gk_width_ratios g ! i = wratios kw ! i"
    unfolding gw f by (simp add: write_back_other)
  moreover have "\<forall>i. i \<notin> set (ratio_idxs (hpanels kw)) \<longrightarrow> gk_height_ratios g ! i = hratios kw ! i"
    unfolding gh f by (simp add: write_back_other)
  moreover have "length (gk_width_ratios g) = length (wratios kw)"
    "length (gk_height_ratios g) = length (hratios kw)"
    unfolding gw gh by (simp_all add: write_back_length)
  ultimately show ?thesis
    using assms sp upd by simp
qed

theorem geometry_frame_witness:
  "wspace kw_2x2_after = wspace kw_2x2 \<and> hspace kw_2x2_after = hspace kw_2x2 \<and>
   kw_2x2_after = kw_2x2 \<lparr> wratios := [2, 2], hratios := [2, 2] \<rparr>"
  using geometry_frame [OF geometry_2x2 [of 0]]
  by (simp add: kw_2x2_after_def)


section \<open>Properties of the panel insertion\<close>

lemma emap_Inr:
  "emap f xs = Inr ys \<Longrightarrow> length ys = length xs \<and> (\<forall>k < length xs. f (xs ! k) = Inr (ys ! k))"
proof (induction xs arbitrary: ys)
  case Nil
  then show ?case by simp
next
  case (Cons x xs)
  then obtain y ys' where y: "f x = Inr y" and r: "emap f xs = Inr ys'" and e: "ys = y # ys'"
    by (auto simp: ebind_eq_Inr)
  show ?case
    using Cons.IH [OF r] y e by (auto simp: nth_Cons split: nat.splits)
qed

lemma emap_Inl:
  "k < length xs \<Longrightarrow> f (xs ! k) = Inl e \<Longrightarrow> \<exists>e'. emap f xs = Inl e'"
proof (induction xs arbitrary: k)
  case Nil
  then show ?case by simp
next
  case (Cons x xs)
  show ?case
  proof (cases k)
    case 0
    with Cons.prems show ?thesis by simp
  next
    case (Suc j)
    with Cons.prems have "\<exists>e'. emap f xs = Inl e'"
      using Cons.IH [of j] by simp
    then show ?thesis by (cases "f x") auto
  qed
qed

lemma slice_indices_plain:
  assumes "0 \<le> a" "a \<le> b" "b < n"
  shows "normalize_key (KSlice (Slice (Some a) (Some (b + 1)) None)) n = Inr (a, b)"
  using assms by (simp add: normalize_key_def slice_indices_def slice_bound_def)

lemma getitem_slices_coords:
  assumes wf: "gs_nrows g = 2 * nrows_active g - 1" "gs_ncols g = 2 * ncols_active g - 1"
    and r: "0 \<le> r1" "r1 \<le> r2" "r2 < nrows_active g"
    and c: "0 \<le> c1" "c1 \<le> c2" "c2 < ncols_active g"
  shows "\<exists>ss'. getitem g (Tuple [KSlice (Slice (Some r1) (Some (r2 + 1)) None),
                                 KSlice (Slice (Some c1) (Some (c2 + 1)) None)]) = Inr ss' \<and>
               get_gridspec ss' = Flexible (gs_nrows g) (gs_ncols g) \<and>
               get_active_rows_columns ss'
                 = Inr (gs_nrows g div 2, gs_ncols g div 2, r1, r2, c1, c2)"
proof -
  let ?m = "gs_ncols g"
  have n1: "normalize_key (KSlice (Slice (Some r1) (Some (r2 + 1)) None)) (nrows_active g) = Inr (r1, r2)"
    using r by (rule slice_indices_plain)
  have n2: "normalize_key (KSlice (Slice (Some c1) (Some (c2 + 1)) None)) (ncols_active g) = Inr (c1, c2)"
    using c by (rule slice_indices_plain)
  have rv: "ravel_multi_index ((r1, r2), (c1, c2)) (gs_nrows g, ?m) = Inr (r1 * ?m + c1, r2 * ?m + c2)"
    using wf r c by (simp add: ravel_multi_index_def)
  have mpos: "0 < ?m" using wf c by simp
  have nn: "0 \<le> r1 * ?m + c1" "0 \<le> r2 * ?m + c2"
    using r c mpos by simp_all
  let ?ss = "SubplotSpec (Flexible (gs_nrows g) ?m) (2 * (r1 * ?m + c1)) (Some (2 * (r2 * ?m + c2)))"
  have gi: "getitem g (Tuple [KSlice (Slice (Some r1) (Some (r2 + 1)) None),
                              KSlice (Slice (Some c1) (Some (c2 + 1)) None)]) = Inr ?ss"
    using nn by (simp add: getitem_def n1 n2 rv positem_def Let_def)
  have d1: "(2 * (r1 * ?m + c1)) div ?m = 2 * r1 \<and> (2 * (r1 * ?m + c1)) mod ?m = 2 * c1"
    by (rule divmod_even [where n = "ncols_active g"]) (use c wf in auto)
  have d2: "(2 * (r2 * ?m + c2)) div ?m = 2 * r2 \<and> (2 * (r2 * ?m + c2)) mod ?m = 2 * c2"
    by (rule divmod_even [where n = "ncols_active g"]) (use c wf in auto)
  have "get_active_rows_columns ?ss = Inr (gs_nrows g div 2, ?m div 2, r1, r2, c1, c2)"
    using mpos d1 d2 by (simp add: get_active_rows_columns_def py_divmod_def)
  with gi show ?thesis by simp
qed


lemma topmost_plain:
  "get_gridspec ss = Flexible r c \<Longrightarrow> get_topmost_subplotspec ss = ss"
  by (cases ss) simp

lemma nesting_0: "nesting ss = 0 \<longleftrightarrow> (\<exists>r c. get_gridspec ss = Flexible r c)"
  by (cases ss; cases "get_gridspec ss") auto

lemma FlexibleGridSpec_Inr:
  assumes "FlexibleGridSpec gk = Inr g"
  shows "gs_nrows g = 2 * nrows_active g - 1 \<and> gs_ncols g = 2 * ncols_active g - 1 \<and>
         nrows_active g = gk_nrows gk \<and> ncols_active g = gk_ncols gk"
  using assms by (auto simp: FlexibleGridSpec_def ebind_eq_Inr)

lemma gridspec_update_Inr:
  assumes "gridspec_update g0 gk = Inr g"
  shows "gs_nrows g = gs_nrows g0 \<and> gs_ncols g = gs_ncols g0 \<and>
         nrows_active g = nrows_active g0 \<and> ncols_active g = ncols_active g0"
  using assms by (auto simp: gridspec_update_def ebind_eq_Inr)

lemma store_arrays_simps [simp]:
  "fig_axs (store_arrays lr a fig) = fig_axs fig"
  "gridspec_main (store_arrays lr a fig) = gridspec_main fig"
  "size_inches (store_arrays lr a fig) = size_inches fig"
  by (simp_all add: store_arrays_def)

lemma insert_row_column_Inr:
  assumes "insert_row_column units rc fig (s # rest) idx ratio space so fp = Inr (fig', g)"
  shows "s \<in> set ''lrbt'' \<and>
    (\<exists>a ex idx' figsize gk kw'.
      edit_arrays units s idx ratio space so fp (load_arrays (s \<in> set ''lr'') fig)
        = Inr (a, ex, idx') \<and>
      subplots_geometry rc (subplots_kw (store_arrays (s \<in> set ''lr'') a fig))
        = Inr (figsize, gk, kw') \<and>
      (if ex then
         gridspec_update (gridspec_main fig) gk = Inr g \<and>
         fig' = (store_arrays (s \<in> set ''lr'') a fig)
                  \<lparr> subplots_kw := kw', size_inches := figsize, gridspec_main := g \<rparr>
       else
         FlexibleGridSpec gk = Inr g \<and>
         (\<exists>axs'. emap (reassign_axes g s idx') (fig_axs fig) = Inr axs' \<and>
            fig' = (store_arrays (s \<in> set ''lr'') a fig)
                     \<lparr> subplots_kw := kw', size_inches := figsize, gridspec_main := g,
                       fig_axs := axs' \<rparr>)))"
proof -
  have s: "s \<in> set ''lrbt''"
    using assms unfolding insert_row_column_def by (auto split: if_splits)
  let ?lr = "s \<in> set ''lr''"
  from assms s obtain a ex idx' where
    e: "edit_arrays units s idx ratio space so fp (load_arrays ?lr fig) = Inr (a, ex, idx')"
    and r1: "ebind (subplots_geometry rc (subplots_kw (store_arrays ?lr a fig)))
       (\<lambda>(figsize, gk, kw').
          let fig2 = (store_arrays ?lr a fig)\<lparr> subplots_kw := kw', size_inches := figsize \<rparr> in
          if ex then
            ebind (gridspec_update (gridspec_main fig2) gk) (\<lambda>g.
              Inr (fig2\<lparr> gridspec_main := g \<rparr>, g))
          else
            ebind (FlexibleGridSpec gk) (\<lambda>g.
            ebind (emap (reassign_axes g s idx') (fig_axs fig2)) (\<lambda>axs'.
              Inr (fig2\<lparr> gridspec_main := g, fig_axs := axs' \<rparr>, g)))) = Inr (fig', g)"
    unfolding insert_row_column_def Let_def
    by (simp only: list.case if_not_P [OF notnotD] simp_thms) (auto simp: ebind_eq_Inr)
  from r1 obtain figsize gk kw' where
    g: "subplots_geometry rc (subplots_kw (store_arrays ?lr a fig)) = Inr (figsize, gk, kw')"
    and r2: "(let fig2 = (store_arrays ?lr a fig)\<lparr> subplots_kw := kw', size_inches := figsize \<rparr> in
          if ex then
            ebind (gridspec_update (gridspec_main fig2) gk) (\<lambda>g.
              Inr (fig2\<lparr> gridspec_main := g \<rparr>, g))
          else
            ebind (FlexibleGridSpec gk) (\<lambda>g.
            ebind (emap (reassign_axes g s idx') (fig_axs fig2)) (\<lambda>axs'.
              Inr (fig2\<lparr> gridspec_main := g, fig_axs := axs' \<rparr>, g)))) = Inr (fig', g)"
    by (auto simp: ebind_eq_Inr)
  have "if ex then
         gridspec_update (gridspec_main fig) gk = Inr g \<and>
         fig' = (store_arrays ?lr a fig)
                  \<lparr> subplots_kw := kw', size_inches := figsize, gridspec_main := g \<rparr>
       else
         FlexibleGridSpec gk = Inr g \<and>
         (\<exists>axs'. emap (reassign_axes g s idx') (fig_axs fig) = Inr axs' \<and>
            fig' = (store_arrays ?lr a fig)
                     \<lparr> subplots_kw := kw', size_inches := figsize, gridspec_main := g,
                       fig_axs := axs' \<rparr>)"
    using r2 by (cases ex) (auto simp: Let_def ebind_eq_Inr)
  with s e g show ?thesis by blast
qed


lemma edit_arrays_new:
  assumes "slot_exists (a_panels a) idx (if fp then ''f'' else [s]) = Inr False"
  shows "edit_arrays units s idx ratio space so fp a =
     Inr (a\<lparr> a_count := a_count a + 1,
              a_spaces_orig := py_insert (a_spaces_orig a)
                 (idx - (if s \<in> set ''br'' then 1 else 0) + (if s \<in> set ''tl'' then 1 else 0)) so,
              a_spaces := py_insert (a_spaces a)
                 (idx - (if s \<in> set ''br'' then 1 else 0) + (if s \<in> set ''tl'' then 1 else 0)) space,
              a_ratios := py_insert (a_ratios a) (idx + (if s \<in> set ''tl'' then 1 else 0)) ratio,
              a_panels := py_insert (a_panels a) (idx + (if s \<in> set ''tl'' then 1 else 0))
                 (if fp then ''f'' else [s]) \<rparr>,
          False, idx + (if s \<in> set ''tl'' then 1 else 0))"
  using assms unfolding edit_arrays_def Let_def by simp

lemma load_arrays_count:
  "a_count (load_arrays lr fig) = (if lr then ncols (subplots_kw fig) else nrows (subplots_kw fig))"
  by (simp add: load_arrays_def Let_def)

lemma store_arrays_counts:
  "ncols (subplots_kw (store_arrays lr a fig)) = (if lr then a_count a else ncols (subplots_kw fig))"
  "nrows (subplots_kw (store_arrays lr a fig)) = (if lr then nrows (subplots_kw fig) else a_count a)"
  by (simp_all add: store_arrays_def)

lemma reassign_subplotspec_coords:
  assumes run: "reassign_subplotspec g s i ss = Inr ss'"
    and depth: "nesting ss \<le> 1"
    and wf: "gs_nrows g = 2 * nrows_active g - 1" "gs_ncols g = 2 * ncols_active g - 1"
    and co: "get_active_rows_columns (get_topmost_subplotspec ss) = Inr (nr, nc, r1, r2, c1, c2)"
    and ins: "i0 = (if s \<in> set ''lr'' then None else Some i)"
             "i1 = (if s \<in> set ''lr'' then Some i else None)"
    and r: "0 \<le> shift_coord i0 r1" "shift_coord i0 r1 \<le> shift_coord i0 r2"
           "shift_coord i0 r2 < nrows_active g"
    and c: "0 \<le> shift_coord i1 c1" "shift_coord i1 c1 \<le> shift_coord i1 c2"
           "shift_coord i1 c2 < ncols_active g"
  shows "get_active_rows_columns (get_topmost_subplotspec ss') =
           Inr (gs_nrows g div 2, gs_ncols g div 2,
                shift_coord i0 r1, shift_coord i0 r2, shift_coord i1 c1, shift_coord i1 c2)"
proof -
  obtain sn where gi: "getitem g
        (Tuple [KSlice (Slice (Some (shift_coord i0 r1)) (Some (shift_coord i0 r2 + 1)) None),
                KSlice (Slice (Some (shift_coord i1 c1)) (Some (shift_coord i1 c2 + 1)) None)])
        = Inr sn"
    and own: "get_gridspec sn = Flexible (gs_nrows g) (gs_ncols g)"
    and rc: "get_active_rows_columns sn =
           Inr (gs_nrows g div 2, gs_ncols g div 2,
                shift_coord i0 r1, shift_coord i0 r2, shift_coord i1 c1, shift_coord i1 c2)"
    using getitem_slices_coords [OF wf r c] by blast
  have top: "get_topmost_subplotspec sn = sn"
    using own by (rule topmost_plain)
  have res: "(case get_gridspec ss of
               Flexible r0 c0 \<Rightarrow> Inr sn
             | FromSubplotSpec nr nc inner \<Rightarrow>
                 (case get_gridspec inner of
                    Flexible r0 c0 \<Rightarrow>
                      Inr (SubplotSpec (FromSubplotSpec nr nc sn) (num1 ss) (num2 ss))
                  | FromSubplotSpec nr' nc' inner' \<Rightarrow>
                      Inl (ValueError ''Unexpected GridSpecFromSubplotSpec nesting.''))) = Inr ss'"
    using run co gi ins unfolding reassign_subplotspec_def Let_def
    by (auto simp: ebind_eq_Inr split: if_splits)
  show ?thesis
  proof (cases "get_gridspec ss")
    case (Flexible r0 c0)
    with res have "ss' = sn" by simp
    with top rc show ?thesis by simp
  next
    case (FromSubplotSpec nr' nc' inner)
    then have "nesting inner = 0"
      using depth by (cases ss) auto
    then obtain r0 c0 where "get_gridspec inner = Flexible r0 c0"
      by (auto simp: nesting_0)
    with res FromSubplotSpec
    have "ss' = SubplotSpec (FromSubplotSpec nr' nc' sn) (num1 ss) (num2 ss)" by simp
    with top rc show ?thesis by simp
  qed
qed

lemma reassign_subplotspec_deep:
  assumes "2 \<le> nesting ss"
  shows "(\<exists>e. reassign_subplotspec g s i ss = Inl e) \<and>
         (get_active_rows_columns (get_topmost_subplotspec ss) = Inr (nr, nc, r1, r2, c1, c2) \<and>
          getitem g
            (Tuple [KSlice (Slice (Some (shift_coord (if s \<in> set ''lr'' then None else Some i) r1))
                       (Some (shift_coord (if s \<in> set ''lr'' then None else Some i) r2 + 1)) None),
                    KSlice (Slice (Some (shift_coord (if s \<in> set ''lr'' then Some i else None) c1))
                       (Some (shift_coord (if s \<in> set ''lr'' then Some i else None) c2 + 1)) None)])
             = Inr sn
          \<longrightarrow> reassign_subplotspec g s i ss
                = Inl (ValueError ''Unexpected GridSpecFromSubplotSpec nesting.''))"
proof -
  obtain nr' nc' inner n1 n2 where ss: "ss = SubplotSpec (FromSubplotSpec nr' nc' inner) n1 n2"
    and "1 \<le> nesting inner"
    using assms by (cases ss; cases "get_gridspec ss") auto
  then obtain nr2 nc2 inner2 where inner: "get_gridspec inner = FromSubplotSpec nr2 nc2 inner2"
    by (cases inner; cases "get_gridspec inner") auto
  have a: "\<exists>e. reassign_subplotspec g s i ss = Inl e"
    unfolding reassign_subplotspec_def Let_def ebind_def
    by (auto simp: ss inner split: sum.splits prod.splits)
  have b: "reassign_subplotspec g s i ss
            = Inl (ValueError ''Unexpected GridSpecFromSubplotSpec nesting.'')"
    if "get_active_rows_columns (get_topmost_subplotspec ss) = Inr (nr, nc, r1, r2, c1, c2)"
      "getitem g
            (Tuple [KSlice (Slice (Some (shift_coord (if s \<in> set ''lr'' then None else Some i) r1))
                       (Some (shift_coord (if s \<in> set ''lr'' then None else Some i) r2 + 1)) None),
                    KSlice (Slice (Some (shift_coord (if s \<in> set ''lr'' then Some i else None) c1))
                       (Some (shift_coord (if s \<in> set ''lr'' then Some i else None) c2 + 1)) None)])
             = Inr sn"
    using that unfolding reassign_subplotspec_def Let_def
    by (auto simp: ss inner)
  show ?thesis using a b by blast
qed

lemma insert_row_column_newI:
  assumes "s \<in> set ''lrbt''"
    and "edit_arrays units s idx ratio space so fp (load_arrays (s \<in> set ''lr'') fig)
           = Inr (a, False, idx')"
    and "subplots_geometry rc (subplots_kw (store_arrays (s \<in> set ''lr'') a fig))
           = Inr (figsize, gk, kw')"
    and "FlexibleGridSpec gk = Inr g"
    and "emap (reassign_axes g s idx') (fig_axs fig) = Inr axs'"
  shows "insert_row_column units rc fig (s # rest) idx ratio space so fp =
     Inr ((store_arrays (s \<in> set ''lr'') a fig)
            \<lparr> subplots_kw := kw', size_inches := figsize, gridspec_main := g, fig_axs := axs' \<rparr>, g)"
  using assms unfolding insert_row_column_def by (simp add: Let_def)

lemma insert_row_column_existsI:
  assumes "s \<in> set ''lrbt''"
    and "edit_arrays units s idx ratio space so fp (load_arrays (s \<in> set ''lr'') fig)
           = Inr (a, True, idx')"
    and "subplots_geometry rc (subplots_kw (store_arrays (s \<in> set ''lr'') a fig))
           = Inr (figsize, gk, kw')"
    and "gridspec_update (gridspec_main fig) gk = Inr g"
  shows "insert_row_column units rc fig (s # rest) idx ratio space so fp =
     Inr ((store_arrays (s \<in> set ''lr'') a fig)
            \<lparr> subplots_kw := kw', size_inches := figsize, gridspec_main := g \<rparr>, g)"
  using assms unfolding insert_row_column_def by (simp add: Let_def)

lemmas edit_defs = edit_arrays_def slot_exists_def load_arrays_def py_nth_def py_set_def
  py_insert_def
lemmas grid_defs = FlexibleGridSpec_def gridspec_update_def spaces_as_ratios_def repeat_single_def
lemmas remap_defs = reassign_axes_def reassign_subplotspec_def shift_coord_def getitem_def
  normalize_key_def slice_indices_def slice_bound_def ravel_multi_index_def positem_def
  get_active_rows_columns_def py_divmod_def

lemma insert_left_2x2:
  "insert_row_column (\<lambda>x. x) 2 fig_2x2 ''left'' (- 1) (1 / 2) (1 / 10) None False
     = Inr (fig_2x2_left, grid_left)"
proof -
  let ?a = "\<lparr> a_panels = [''l'', [], []], a_ratios = [1 / 2, 2, 2], a_spaces = [1 / 10, 1 / 5],
              a_spaces_orig = [None, None], a_count = 3 \<rparr>"
  let ?kw = "\<lparr> nrows = 2, ncols = 3, aspect = Scalar 1, xref = (0, 0), yref = (0, 0),
       width = None, height = None, axwidth = Some 2, axheight = None,
       wspace = [1 / 10, 1 / 5], hspace = [1 / 5], wratios = [1 / 2, 2, 2], hratios = [2, 2],
       kw_left = 1 / 2, kw_bottom = 1 / 2, kw_right = 1 / 2, kw_top = 1 / 2,
       wpanels = [''l'', [], []], hpanels = [[], []] \<rparr>"
  let ?gk = "\<lparr>gk_ncols = 3, gk_nrows = 2, gk_wspace = [1 / 10, 1 / 5], gk_hspace = [1 / 5],
         gk_width_ratios = [1 / 2, 2, 2], gk_height_ratios = [2, 2],
         gk_left = 5 / 58, gk_bottom = 5 / 52, gk_right = 53 / 58, gk_top = 47 / 52\<rparr>"
  have e: "edit_arrays (\<lambda>x. x) CHR ''l'' (- 1) (1 / 2) (1 / 10) None False
             (load_arrays (CHR ''l'' \<in> set ''lr'') fig_2x2) = Inr (?a, False, 0)"
    by (simp add: edit_defs fig_2x2_def kw_2x2_after_def kw_2x2_def Let_def)
  have k: "subplots_kw (store_arrays (CHR ''l'' \<in> set ''lr'') ?a fig_2x2) = ?kw"
    by (simp add: store_arrays_def fig_2x2_def kw_2x2_after_def kw_2x2_def)
  have g: "subplots_geometry 2 ?kw = Inr ((29 / 5, 26 / 5), ?gk, ?kw)"
    by (simp add: geom_defs upt_rec Let_def)
  have f: "FlexibleGridSpec ?gk = Inr grid_left"
    by (simp add: grid_defs grid_left_def)
  have r: "emap (reassign_axes grid_left CHR ''l'' 0) (fig_axs fig_2x2)
             = Inr [Some (SubplotSpec (Flexible 3 5) 2 (Some 14))]"
    by (simp add: fig_2x2_def remap_defs grid_2x2_def) (simp add: grid_left_def)
  have z: "(store_arrays (CHR ''l'' \<in> set ''lr'') ?a fig_2x2)
            \<lparr> subplots_kw := ?kw, size_inches := (29 / 5, 26 / 5), gridspec_main := grid_left,
              fig_axs := [Some (SubplotSpec (Flexible 3 5) 2 (Some 14))] \<rparr> = fig_2x2_left"
    by (simp add: store_arrays_def fig_2x2_def fig_2x2_left_def kw_2x2_after_def kw_2x2_def)
  have "insert_row_column (\<lambda>x. x) 2 fig_2x2 (CHR ''l'' # ''eft'') (- 1) (1 / 2) (1 / 10) None False
     = Inr ((store_arrays (CHR ''l'' \<in> set ''lr'') ?a fig_2x2)
            \<lparr> subplots_kw := ?kw, size_inches := (29 / 5, 26 / 5), gridspec_main := grid_left,
              fig_axs := [Some (SubplotSpec (Flexible 3 5) 2 (Some 14))] \<rparr>, grid_left)"
    by (rule insert_row_column_newI [OF _ e _ f r]) (simp_all only: k g, simp)
  then show ?thesis by (simp only: z)
qed

lemma shift_coord_mono: "c1 \<le> c2 \<Longrightarrow> shift_coord i c1 \<le> shift_coord i c2"
  by (auto simp: shift_coord_def split: option.splits)

lemma shift_coord_bounds: "c \<le> shift_coord i c \<and> shift_coord i c \<le> c + 1"
  by (auto simp: shift_coord_def split: option.splits)

text \<open>
  Claim C3, amended. When a panel slot is inserted at the index \<open>i\<close> (the requested
  index plus the offset of the side), every placement that lies on the main gridspec, or
  in a gridspec nested one level in it, has the two coordinates along the insertion axis
  (the columns for a left or right panel, the rows for a top or bottom panel) raised by
  exactly 1 where they are at least \<open>i\<close>; the two coordinates along the other axis stay
  as they are, whatever their value. The coordinates are those
  \<^verbatim>\<open>get_active_rows_columns\<close> reads, and the placement lies inside the grid.
\<close>

theorem remap_along_insertion_axis:
  assumes run: "insert_row_column units rc fig (s # rest) idx ratio space so fp = Inr (fig', g)"
    and new: "slot_exists (a_panels (load_arrays (s \<in> set ''lr'') fig)) idx
                (if fp then ''f'' else [s]) = Inr False"
    and k: "k < length (fig_axs fig)" "fig_axs fig ! k = Some ss"
    and depth: "nesting ss \<le> 1"
    and co: "get_active_rows_columns (get_topmost_subplotspec ss) = Inr (nr, nc, r1, r2, c1, c2)"
    and rows: "0 \<le> r1" "r1 \<le> r2" "r2 < nrows (subplots_kw fig)"
    and cols: "0 \<le> c1" "c1 \<le> c2" "c2 < ncols (subplots_kw fig)"
    and i: "i = idx + (if s \<in> set ''tl'' then 1 else 0)"
  shows "\<exists>ss' nr' nc'. fig_axs fig' ! k = Some ss' \<and>
     get_active_rows_columns (get_topmost_subplotspec ss') =
       Inr (nr', nc',
            if s \<in> set ''lr'' then r1 else if r1 \<ge> i then r1 + 1 else r1,
            if s \<in> set ''lr'' then r2 else if r2 \<ge> i then r2 + 1 else r2,
            if s \<in> set ''lr'' then (if c1 \<ge> i then c1 + 1 else c1) else c1,
            if s \<in> set ''lr'' then (if c2 \<ge> i then c2 + 1 else c2) else c2)"
proof -
  let ?lr = "s \<in> set ''lr''"
  let ?i0 = "if ?lr then None else Some i"
  let ?i1 = "if ?lr then Some i else None"
  obtain a ex idx' figsize gk kw' where
    e: "edit_arrays units s idx ratio space so fp (load_arrays ?lr fig) = Inr (a, ex, idx')"
    and geo: "subplots_geometry rc (subplots_kw (store_arrays ?lr a fig)) = Inr (figsize, gk, kw')"
    and rest: "if ex then
         gridspec_update (gridspec_main fig) gk = Inr g \<and>
         fig' = (store_arrays ?lr a fig)
                  \<lparr> subplots_kw := kw', size_inches := figsize, gridspec_main := g \<rparr>
       else
         FlexibleGridSpec gk = Inr g \<and>
         (\<exists>axs'. emap (reassign_axes g s idx') (fig_axs fig) = Inr axs' \<and>
            fig' = (store_arrays ?lr a fig)
                     \<lparr> subplots_kw := kw', size_inches := figsize, gridspec_main := g,
                       fig_axs := axs' \<rparr>)"
    using insert_row_column_Inr [OF run] by blast
  note en = edit_arrays_new [OF new, of units ratio space so]
  have ex: "ex = False" and idx': "idx' = i"
    and cnt: "a_count a = a_count (load_arrays ?lr fig) + 1"
    using e i unfolding en by auto
  obtain axs' where fg: "FlexibleGridSpec gk = Inr g"
    and em: "emap (reassign_axes g s i) (fig_axs fig) = Inr axs'"
    and fig': "fig_axs fig' = axs'"
    using rest ex idx' by auto
  have gkd: "gk_ncols gk = ncols (subplots_kw (store_arrays ?lr a fig))"
    "gk_nrows gk = nrows (subplots_kw (store_arrays ?lr a fig))"
    using subplots_geometry_Inr [OF geo] by auto
  note wf = FlexibleGridSpec_Inr [OF fg]
  have nca: "ncols_active g = (if ?lr then ncols (subplots_kw fig) + 1 else ncols (subplots_kw fig))"
    and nra: "nrows_active g = (if ?lr then nrows (subplots_kw fig) else nrows (subplots_kw fig) + 1)"
    using wf gkd cnt by (simp_all add: store_arrays_counts load_arrays_count)
  have "reassign_axes g s i (Some ss) = Inr (axs' ! k)"
    using emap_Inr [OF em] k by auto
  then have "\<exists>ss'. axs' ! k = Some ss' \<and> reassign_subplotspec g s i ss = Inr ss'"
    by (cases "reassign_subplotspec g s i ss") (auto simp: reassign_axes_def)
  then obtain ss' where ssk: "axs' ! k = Some ss'"
    and re: "reassign_subplotspec g s i ss = Inr ss'"
    by blast
  have r: "0 \<le> shift_coord ?i0 r1" "shift_coord ?i0 r1 \<le> shift_coord ?i0 r2"
    "shift_coord ?i0 r2 < nrows_active g"
    using rows nra shift_coord_bounds [of r1 ?i0] shift_coord_bounds [of r2 ?i0]
      shift_coord_mono [of r1 r2 ?i0]
    by (auto simp: shift_coord_def)
  have c: "0 \<le> shift_coord ?i1 c1" "shift_coord ?i1 c1 \<le> shift_coord ?i1 c2"
    "shift_coord ?i1 c2 < ncols_active g"
    using cols nca shift_coord_bounds [of c1 ?i1] shift_coord_bounds [of c2 ?i1]
      shift_coord_mono [of c1 c2 ?i1]
    by (auto simp: shift_coord_def)
  have "get_active_rows_columns (get_topmost_subplotspec ss') =
           Inr (gs_nrows g div 2, gs_ncols g div 2,
                shift_coord ?i0 r1, shift_coord ?i0 r2, shift_coord ?i1 c1, shift_coord ?i1 c2)"
    by (rule reassign_subplotspec_coords [OF re depth _ _ co refl refl r c]) (use wf in auto)
  then show ?thesis
    using ssk fig' by (auto simp: shift_coord_def)
qed


lemma fig_2x2_coords:
  "map (map_option get_active_rows_columns) (fig_axs fig_2x2) = [Some (Inr (1, 1, 0, 1, 0, 1))]"
  by (simp add: fig_2x2_def get_active_rows_columns_def py_divmod_def grid_2x2_def)

lemma fig_2x2_left_coords:
  "map (map_option get_active_rows_columns) (fig_axs fig_2x2_left)
     = [Some (Inr (1, 2, 0, 1, 1, 2))]"
  by (simp add: fig_2x2_left_def get_active_rows_columns_def py_divmod_def grid_left_def)

text \<open>
  Claim C3, as stated, fails for the coordinates across the insertion axis. A left panel
  inserted at index \<open>-1\<close> of the example has the insertion index 0; the placement
  \<^verbatim>\<open>[0:2, 0:2]\<close> has its columns moved from \<open>(0, 1)\<close> to \<open>(1, 2)\<close>, and its rows
  stay \<open>(0, 1)\<close> although both are at least 0.
\<close>

theorem remap_leaves_rows:
  "insert_row_column (\<lambda>x. x) 2 fig_2x2 ''left'' (- 1) (1 / 2) (1 / 10) None False
     = Inr (fig_2x2_left, grid_left) \<and>
   map (map_option get_active_rows_columns) (fig_axs fig_2x2) = [Some (Inr (1, 1, 0, 1, 0, 1))] \<and>
   map (map_option get_active_rows_columns) (fig_axs fig_2x2_left)
     = [Some (Inr (1, 2, 0, 1, 1, 2))] \<and>
   (0::int) \<ge> - 1 + 1 \<and> (1::int) \<ge> - 1 + 1"
  using insert_left_2x2 fig_2x2_coords fig_2x2_left_coords by simp

theorem remap_along_insertion_axis_witness:
  "\<exists>ss' nr' nc'. fig_axs fig_2x2_left ! 0 = Some ss' \<and>
     get_active_rows_columns (get_topmost_subplotspec ss') = Inr (nr', nc', 0, 1, 1, 2)"
proof -
  have new: "slot_exists (a_panels (load_arrays (CHR ''l'' \<in> set ''lr'') fig_2x2)) (- 1)
                (if False then ''f'' else [CHR ''l'']) = Inr False"
    by (simp add: slot_exists_def)
  have k: "0 < length (fig_axs fig_2x2)"
    "fig_axs fig_2x2 ! 0 = Some (SubplotSpec (Flexible 3 3) 0 (Some 8))"
    by (simp_all add: fig_2x2_def)
  have co: "get_active_rows_columns
              (get_topmost_subplotspec (SubplotSpec (Flexible 3 3) 0 (Some 8)))
            = Inr (1, 1, 0, 1, 0, 1)"
    by (simp add: get_active_rows_columns_def py_divmod_def grid_2x2_def)
  have kw: "nrows (subplots_kw fig_2x2) = 2" "ncols (subplots_kw fig_2x2) = 2"
    by (simp_all add: fig_2x2_def kw_2x2_after_def kw_2x2_def)
  show ?thesis
    using remap_along_insertion_axis [OF insert_left_2x2 [simplified] new k _ co, of 0]
    by (simp add: kw)
qed

text \<open>
  Claim C8, amended. A placement nested two or more gridspecs deep matches neither
  ownership relation. A structural insertion into a figure with such a placement never
  returns; the loop body fails on the placement, and once the coordinates were read and
  the new region was built the failure is the \<^verbatim>\<open>ValueError\<close> of line 1340.
\<close>

theorem unexpected_nesting_raises:
  assumes new: "slot_exists (a_panels (load_arrays (s \<in> set ''lr'') fig)) idx
                (if fp then ''f'' else [s]) = Inr False"
    and k: "k < length (fig_axs fig)" "fig_axs fig ! k = Some ss"
    and depth: "2 \<le> nesting ss"
  shows "insert_row_column units rc fig (s # rest) idx ratio space so fp \<noteq> Inr res \<and>
         (\<exists>e. reassign_subplotspec g s i ss = Inl e) \<and>
         (get_active_rows_columns (get_topmost_subplotspec ss) = Inr (nr, nc, r1, r2, c1, c2) \<and>
          getitem g
            (Tuple [KSlice (Slice (Some (shift_coord (if s \<in> set ''lr'' then None else Some i) r1))
                       (Some (shift_coord (if s \<in> set ''lr'' then None else Some i) r2 + 1)) None),
                    KSlice (Slice (Some (shift_coord (if s \<in> set ''lr'' then Some i else None) c1))
                       (Some (shift_coord (if s \<in> set ''lr'' then Some i else None) c2 + 1)) None)])
             = Inr sn
          \<longrightarrow> reassign_subplotspec g s i ss
                = Inl (ValueError ''Unexpected GridSpecFromSubplotSpec nesting.''))"
proof -
  have a: "insert_row_column units rc fig (s # rest) idx ratio space so fp \<noteq> Inr res"
  proof
    assume run: "insert_row_column units rc fig (s # rest) idx ratio space so fp = Inr res"
    obtain fig' g' where res: "res = (fig', g')" by (cases res)
    let ?lr = "s \<in> set ''lr''"
    obtain a ex idx' figsize gk kw' where
      e: "edit_arrays units s idx ratio space so fp (load_arrays ?lr fig) = Inr (a, ex, idx')"
      and rest: "if ex then
         gridspec_update (gridspec_main fig) gk = Inr g' \<and>
         fig' = (store_arrays ?lr a fig)
                  \<lparr> subplots_kw := kw', size_inches := figsize, gridspec_main := g' \<rparr>
       else
         FlexibleGridSpec gk = Inr g' \<and>
         (\<exists>axs'. emap (reassign_axes g' s idx') (fig_axs fig) = Inr axs' \<and>
            fig' = (store_arrays ?lr a fig)
                     \<lparr> subplots_kw := kw', size_inches := figsize, gridspec_main := g',
                       fig_axs := axs' \<rparr>)"
      using insert_row_column_Inr [OF run [unfolded res]] by blast
    have "ex = False"
      using e unfolding edit_arrays_new [OF new, of units ratio space so] by auto
    then obtain axs' where em: "emap (reassign_axes g' s idx') (fig_axs fig) = Inr axs'"
      using rest by auto
    have "reassign_axes g' s idx' (Some ss) = Inr (axs' ! k)"
      using emap_Inr [OF em] k by auto
    then have "\<exists>ss'. reassign_subplotspec g' s idx' ss = Inr ss'"
      by (cases "reassign_subplotspec g' s idx' ss") (auto simp: reassign_axes_def)
    then show False
      using reassign_subplotspec_deep [OF depth, of g' s idx'] by auto
  qed
  show ?thesis
    using a reassign_subplotspec_deep [OF depth, of g s i nr nc r1 r2 c1 c2 sn] by blast
qed

lemma insert_row_column_remap_errorI:
  assumes "s \<in> set ''lrbt''"
    and "edit_arrays units s idx ratio space so fp (load_arrays (s \<in> set ''lr'') fig)
           = Inr (a, False, idx')"
    and "subplots_geometry rc (subplots_kw (store_arrays (s \<in> set ''lr'') a fig))
           = Inr (figsize, gk, kw')"
    and "FlexibleGridSpec gk = Inr g"
    and "emap (reassign_axes g s idx') (fig_axs fig) = Inl err"
  shows "insert_row_column units rc fig (s # rest) idx ratio space so fp = Inl err"
  using assms unfolding insert_row_column_def by (simp add: Let_def)

lemma insert_left_nested:
  "insert_row_column (\<lambda>x. x) 2 fig_nested ''left'' (- 1) (1 / 2) (1 / 10) None False
     = Inl (ValueError ''Unexpected GridSpecFromSubplotSpec nesting.'')"
proof -
  let ?a = "\<lparr> a_panels = [''l'', [], []], a_ratios = [1 / 2, 2, 2], a_spaces = [1 / 10, 1 / 5],
              a_spaces_orig = [None, None], a_count = 3 \<rparr>"
  let ?kw = "\<lparr> nrows = 2, ncols = 3, aspect = Scalar 1, xref = (0, 0), yref = (0, 0),
       width = None, height = None, axwidth = Some 2, axheight = None,
       wspace = [1 / 10, 1 / 5], hspace = [1 / 5], wratios = [1 / 2, 2, 2], hratios = [2, 2],
       kw_left = 1 / 2, kw_bottom = 1 / 2, kw_right = 1 / 2, kw_top = 1 / 2,
       wpanels = [''l'', [], []], hpanels = [[], []] \<rparr>"
  let ?gk = "\<lparr>gk_ncols = 3, gk_nrows = 2, gk_wspace = [1 / 10, 1 / 5], gk_hspace = [1 / 5],
         gk_width_ratios = [1 / 2, 2, 2], gk_height_ratios = [2, 2],
         gk_left = 5 / 58, gk_bottom = 5 / 52, gk_right = 53 / 58, gk_top = 47 / 52\<rparr>"
  have e: "edit_arrays (\<lambda>x. x) CHR ''l'' (- 1) (1 / 2) (1 / 10) None False
             (load_arrays (CHR ''l'' \<in> set ''lr'') fig_nested) = Inr (?a, False, 0)"
    by (simp add: edit_defs fig_nested_def fig_2x2_def kw_2x2_after_def kw_2x2_def Let_def)
  have k: "subplots_kw (store_arrays (CHR ''l'' \<in> set ''lr'') ?a fig_nested) = ?kw"
    by (simp add: store_arrays_def fig_nested_def fig_2x2_def kw_2x2_after_def kw_2x2_def)
  have g: "subplots_geometry 2 ?kw = Inr ((29 / 5, 26 / 5), ?gk, ?kw)"
    by (simp add: geom_defs upt_rec Let_def)
  have f: "FlexibleGridSpec ?gk = Inr grid_left"
    by (simp add: grid_defs grid_left_def)
  have r: "emap (reassign_axes grid_left CHR ''l'' 0) (fig_axs fig_nested)
             = Inl (ValueError ''Unexpected GridSpecFromSubplotSpec nesting.'')"
    by (simp add: fig_nested_def fig_2x2_def remap_defs grid_2x2_def) (simp add: grid_left_def)
  show ?thesis
    by (rule insert_row_column_remap_errorI [OF _ e _ f r]) (simp_all only: k g, simp)
qed

text \<open>
  Claim C8, as stated, fails in the kind of the error: for an axes nested two gridspecs
  deep the insertion raises a \<^verbatim>\<open>ValueError\<close>, not a \<^verbatim>\<open>RuntimeError\<close>.
\<close>

theorem nesting_error_is_ValueError:
  "insert_row_column (\<lambda>x. x) 2 fig_nested ''left'' (- 1) (1 / 2) (1 / 10) None False
     = Inl (ValueError ''Unexpected GridSpecFromSubplotSpec nesting.'') \<and>
   map (map_option nesting) (fig_axs fig_nested) = [Some 2] \<and>
   ValueError ''Unexpected GridSpecFromSubplotSpec nesting.''
     \<noteq> RuntimeError ''Unexpected GridSpecFromSubplotSpec nesting.''"
  using insert_left_nested by (simp add: fig_nested_def)

theorem unexpected_nesting_raises_witness:
  "insert_row_column (\<lambda>x. x) 2 fig_nested ''left'' (- 1) (1 / 2) (1 / 10) None False
     \<noteq> Inr (fig_2x2_left, grid_left) \<and>
   (\<exists>e. reassign_subplotspec grid_left CHR ''l'' 0
           (SubplotSpec
                (FromSubplotSpec 1 1
                   (SubplotSpec
                      (FromSubplotSpec 1 2 (SubplotSpec (Flexible 3 3) 0 (Some 8)))
                      1 None))
                0 None) = Inl e)"
proof -
  have new: "slot_exists (a_panels (load_arrays (CHR ''l'' \<in> set ''lr'') fig_nested)) (- 1)
                (if False then ''f'' else [CHR ''l'']) = Inr False"
    by (simp add: slot_exists_def)
  have k: "0 < length (fig_axs fig_nested)"
    "fig_axs fig_nested ! 0 = Some (SubplotSpec
                (FromSubplotSpec 1 1
                   (SubplotSpec
                      (FromSubplotSpec 1 2 (SubplotSpec (Flexible 3 3) 0 (Some 8)))
                      1 None))
                0 None)"
    by (simp_all add: fig_nested_def)
  show ?thesis
    using unexpected_nesting_raises [OF new k, of "(\<lambda>x. x)" 2 "''eft''" "1 / 2" "1 / 10" None
        "(fig_2x2_left, grid_left)" grid_left 0]
    by simp
qed

lemma py_set_Inr:
  assumes "py_set xs i v = Inr ys"
  shows "length ys = length xs \<and> py_nth ys i = Inr v"
  using assms by (auto simp: py_set_def py_nth_def Let_def split: if_splits)

lemma py_nth_length:
  "length ys = length xs \<Longrightarrow> (\<exists>e. py_nth ys i = Inl e) \<longleftrightarrow> (\<exists>e. py_nth xs i = Inl e)"
  by (auto simp: py_nth_def Let_def)

lemma py_insert_length: "length (py_insert xs i v) = Suc (length xs)"
  by (auto simp: py_insert_def Let_def)

lemma py_nth_py_insert:
  assumes "0 \<le> i" and "py_nth (py_insert xs i v) i = Inr c"
  shows "c = v"
proof (cases "i \<le> int (length xs)")
  case True
  then have "py_insert xs i v = take (nat i) xs @ v # drop (nat i) xs"
    using assms(1) by (simp add: py_insert_def Let_def min_def)
  moreover have "length (take (nat i) xs) = nat i"
    using True assms(1) by simp
  ultimately have "py_insert xs i v ! nat i = v"
    by (metis nth_append_length)
  then show ?thesis
    using assms by (auto simp: py_nth_def Let_def py_insert_length split: if_splits)
next
  case False
  then show ?thesis
    using assms by (auto simp: py_nth_def Let_def py_insert_length split: if_splits)
qed

lemma py_nth_py_insert_ok:
  assumes "0 \<le> i" and "i \<le> int (length xs)"
  shows "py_nth (py_insert xs i v) i = Inr v"
proof -
  have "py_insert xs i v = take (nat i) xs @ v # drop (nat i) xs"
    using assms by (simp add: py_insert_def Let_def min_def)
  moreover have "length (take (nat i) xs) = nat i"
    using assms by simp
  ultimately have "py_insert xs i v ! nat i = v"
    by (metis nth_append_length)
  then show ?thesis
    using assms by (auto simp: py_nth_def Let_def py_insert_length)
qed

lemma subplots_geometry_kwargs:
  assumes "subplots_geometry rc kw = Inr (figsize, gk, kw')"
  shows "kw' = kw\<lparr> wratios := gk_width_ratios gk, hratios := gk_height_ratios gk \<rparr> \<and>
         length (gk_width_ratios gk) = length (wratios kw) \<and>
         length (gk_height_ratios gk) = length (hratios kw) \<and>
         check_lengths kw = Inr ()"
proof -
  obtain m sv where m: "main_slots_of kw = Inr m" and sv: "solve_sizes rc kw m = Inr sv"
    and gw: "gk_width_ratios gk = write_back (idxs_ratios_w m)
              (rescale (axwidth_all sv) (wratios_main m)) (wratios kw)"
    and gh: "gk_height_ratios gk = write_back (idxs_ratios_h m)
              (rescale (axheight_all sv) (hratios_main m)) (hratios kw)"
    and chk: "check_lengths kw = Inr ()"
    using subplots_geometry_Inr [OF assms] by blast
  have upd: "kw' = kw\<lparr> wratios := gk_width_ratios gk, hratios := gk_height_ratios gk \<rparr>"
    using subplots_geometry_Inr [OF assms] by (elim exE conjE)
  show ?thesis
    using upd chk unfolding gw gh by (simp add: write_back_length)
qed

lemma edit_arrays_exists:
  assumes ex: "slot_exists (a_panels a) idx (if fp then ''f'' else [s]) = Inr True"
    and run: "edit_arrays units s idx ratio space so fp a = Inr (a', ex', idx')"
    and isp: "isp = idx - (if s \<in> set ''br'' then 1 else 0)"
  shows "ex' = True \<and> idx' = idx \<and> a_panels a' = a_panels a \<and> a_ratios a' = a_ratios a \<and>
         a_count a' = a_count a \<and> length (a_spaces a') = length (a_spaces a) \<and>
         length (a_spaces_orig a') = length (a_spaces_orig a) \<and>
         (\<exists>cur. py_nth (a_spaces_orig a) isp = Inr cur \<and>
            py_nth (a_spaces a') isp
              = Inr (case cur of Some v \<Rightarrow> v
                     | None \<Rightarrow> (case so of Some v \<Rightarrow> units v | None \<Rightarrow> space)) \<and>
            py_nth (a_spaces_orig a') isp
              = Inr (case cur of Some v \<Rightarrow> Some v | None \<Rightarrow> map_option units so))"
proof -
  have eq: "edit_arrays units s idx ratio space so fp a =
      ebind (py_nth (a_spaces_orig a) isp) (\<lambda>cur.
      ebind (if cur = None then py_set (a_spaces_orig a) isp (map_option units so)
             else Inr (a_spaces_orig a)) (\<lambda>so'.
      ebind (py_nth so' isp) (\<lambda>pinned.
      ebind (py_set (a_spaces a) isp (case pinned of Some v \<Rightarrow> v | None \<Rightarrow> space))
        (\<lambda>sp. Inr (a\<lparr> a_spaces := sp, a_spaces_orig := so' \<rparr>, True, idx)))))"
    unfolding edit_arrays_def Let_def isp using ex by simp
  from run obtain cur so' pinned sp where
    cur: "py_nth (a_spaces_orig a) isp = Inr cur"
    and so': "(if cur = None then py_set (a_spaces_orig a) isp (map_option units so)
                else Inr (a_spaces_orig a)) = Inr so'"
    and pinned: "py_nth so' isp = Inr pinned"
    and sp: "py_set (a_spaces a) isp (case pinned of Some v \<Rightarrow> v | None \<Rightarrow> space) = Inr sp"
    and fin: "Inr (a\<lparr> a_spaces := sp, a_spaces_orig := so' \<rparr>, True, idx)
                = (Inr (a', ex', idx') :: error + arrays \<times> bool \<times> int)"
    unfolding eq ebind_eq_Inr by blast
  have res: "a' = a\<lparr> a_spaces := sp, a_spaces_orig := so' \<rparr>" "ex' = True" "idx' = idx"
    using fin by simp_all
  have p: "pinned = (case cur of Some v \<Rightarrow> Some v | None \<Rightarrow> map_option units so)"
    and lso: "length so' = length (a_spaces_orig a)"
  proof -
    show "pinned = (case cur of Some v \<Rightarrow> Some v | None \<Rightarrow> map_option units so)"
    proof (cases cur)
      case None
      with so' have "py_nth so' isp = Inr (map_option units so)"
        using py_set_Inr [of "a_spaces_orig a" isp "map_option units so" so'] by simp
      with pinned None show ?thesis by simp
    next
      case (Some v)
      with so' cur pinned show ?thesis by simp
    qed
    show "length so' = length (a_spaces_orig a)"
      using so' py_set_Inr [of "a_spaces_orig a" isp "map_option units so" so']
      by (cases cur) auto
  qed
  have v: "(case pinned of Some v \<Rightarrow> v | None \<Rightarrow> space)
             = (case cur of Some v \<Rightarrow> v
                | None \<Rightarrow> (case so of Some v \<Rightarrow> units v | None \<Rightarrow> space))"
    unfolding p by (cases cur; cases so) simp_all
  show ?thesis
    using res cur pinned p lso py_set_Inr [OF sp] v by simp
qed

lemma check_lengths_store:
  assumes "check_lengths (subplots_kw (store_arrays lr a fig)) = Inr ()"
  shows "int (length (a_panels a)) = a_count a \<and> int (length (a_spaces a)) = a_count a - 1 \<and>
         int (length (a_ratios a)) = a_count a"
  using assms by (cases lr) (auto simp: check_lengths_Inr store_arrays_def)

lemma load_after_geometry:
  assumes "kw' = (subplots_kw (store_arrays lr a fig))\<lparr> wratios := w, hratios := h \<rparr>"
    and "length w = length (wratios (subplots_kw (store_arrays lr a fig)))"
    and "length h = length (hratios (subplots_kw (store_arrays lr a fig)))"
    and "subplots_kw fig' = kw'"
    and "subplots_orig_kw fig' = subplots_orig_kw (store_arrays lr a fig)"
  shows "a_panels (load_arrays lr fig') = a_panels a \<and>
         a_spaces (load_arrays lr fig') = a_spaces a \<and>
         a_spaces_orig (load_arrays lr fig') = a_spaces_orig a \<and>
         a_count (load_arrays lr fig') = a_count a \<and>
         length (a_ratios (load_arrays lr fig')) = length (a_ratios a) \<and>
         a_panels (load_arrays (\<not> lr) fig') = a_panels (load_arrays (\<not> lr) fig) \<and>
         a_spaces (load_arrays (\<not> lr) fig') = a_spaces (load_arrays (\<not> lr) fig) \<and>
         a_spaces_orig (load_arrays (\<not> lr) fig') = a_spaces_orig (load_arrays (\<not> lr) fig) \<and>
         a_count (load_arrays (\<not> lr) fig') = a_count (load_arrays (\<not> lr) fig) \<and>
         length (a_ratios (load_arrays (\<not> lr) fig'))
           = length (a_ratios (load_arrays (\<not> lr) fig))"
  using assms by (cases lr) (simp_all add: load_arrays_def store_arrays_def Let_def)

lemma insert_result_arrays:
  assumes run: "insert_row_column units rc fig (s # rest) idx ratio space so fp = Inr (fig', g)"
    and lr: "lr = (s \<in> set ''lr'')"
  shows "\<exists>a ex idx'.
     edit_arrays units s idx ratio space so fp (load_arrays lr fig) = Inr (a, ex, idx') \<and>
     a_panels (load_arrays lr fig') = a_panels a \<and>
     a_spaces (load_arrays lr fig') = a_spaces a \<and>
     a_spaces_orig (load_arrays lr fig') = a_spaces_orig a \<and>
     a_count (load_arrays lr fig') = a_count a \<and>
     length (a_ratios (load_arrays lr fig')) = length (a_ratios a) \<and>
     a_panels (load_arrays (\<not> lr) fig') = a_panels (load_arrays (\<not> lr) fig) \<and>
     a_spaces (load_arrays (\<not> lr) fig') = a_spaces (load_arrays (\<not> lr) fig) \<and>
     a_spaces_orig (load_arrays (\<not> lr) fig') = a_spaces_orig (load_arrays (\<not> lr) fig) \<and>
     a_count (load_arrays (\<not> lr) fig') = a_count (load_arrays (\<not> lr) fig) \<and>
     length (a_ratios (load_arrays (\<not> lr) fig'))
       = length (a_ratios (load_arrays (\<not> lr) fig)) \<and>
     int (length (a_panels a)) = a_count a \<and> int (length (a_spaces a)) = a_count a - 1 \<and>
     gridspec_main fig' = g \<and>
     (ex \<longrightarrow> gs_nrows g = gs_nrows (gridspec_main fig) \<and>
            gs_ncols g = gs_ncols (gridspec_main fig) \<and>
            nrows_active g = nrows_active (gridspec_main fig) \<and>
            ncols_active g = ncols_active (gridspec_main fig) \<and>
            fig_axs fig' = fig_axs fig)"
proof -
  obtain a ex idx' figsize gk kw' where
    e: "edit_arrays units s idx ratio space so fp (load_arrays lr fig) = Inr (a, ex, idx')"
    and geo: "subplots_geometry rc (subplots_kw (store_arrays lr a fig)) = Inr (figsize, gk, kw')"
    and rest: "if ex then
         gridspec_update (gridspec_main fig) gk = Inr g \<and>
         fig' = (store_arrays lr a fig)
                  \<lparr> subplots_kw := kw', size_inches := figsize, gridspec_main := g \<rparr>
       else
         FlexibleGridSpec gk = Inr g \<and>
         (\<exists>axs'. emap (reassign_axes g s idx') (fig_axs fig) = Inr axs' \<and>
            fig' = (store_arrays lr a fig)
                     \<lparr> subplots_kw := kw', size_inches := figsize, gridspec_main := g,
                       fig_axs := axs' \<rparr>)"
    using insert_row_column_Inr [OF run] unfolding lr by blast
  note gk = subplots_geometry_kwargs [OF geo]
  have f1: "subplots_kw fig' = kw'" and f2: "subplots_orig_kw fig' = subplots_orig_kw (store_arrays lr a fig)"
    and f3: "gridspec_main fig' = g"
    using rest by (cases ex; auto)+
  have ld: "a_panels (load_arrays lr fig') = a_panels a \<and>
         a_spaces (load_arrays lr fig') = a_spaces a \<and>
         a_spaces_orig (load_arrays lr fig') = a_spaces_orig a \<and>
         a_count (load_arrays lr fig') = a_count a \<and>
         length (a_ratios (load_arrays lr fig')) = length (a_ratios a) \<and>
         a_panels (load_arrays (\<not> lr) fig') = a_panels (load_arrays (\<not> lr) fig) \<and>
         a_spaces (load_arrays (\<not> lr) fig') = a_spaces (load_arrays (\<not> lr) fig) \<and>
         a_spaces_orig (load_arrays (\<not> lr) fig') = a_spaces_orig (load_arrays (\<not> lr) fig) \<and>
         a_count (load_arrays (\<not> lr) fig') = a_count (load_arrays (\<not> lr) fig) \<and>
         length (a_ratios (load_arrays (\<not> lr) fig'))
           = length (a_ratios (load_arrays (\<not> lr) fig))"
    by (rule load_after_geometry [where w = "gk_width_ratios gk" and h = "gk_height_ratios gk"
          and kw' = kw'])
       (use gk f1 f2 in simp_all)
  have cl: "int (length (a_panels a)) = a_count a \<and> int (length (a_spaces a)) = a_count a - 1"
    using check_lengths_store [of lr a fig] gk by simp
  have upd: "gs_nrows g = gs_nrows (gridspec_main fig) \<and>
            gs_ncols g = gs_ncols (gridspec_main fig) \<and>
            nrows_active g = nrows_active (gridspec_main fig) \<and>
            ncols_active g = ncols_active (gridspec_main fig) \<and>
            fig_axs fig' = fig_axs fig" if ex
    using rest that gridspec_update_Inr [of "gridspec_main fig" gk g] by auto
  show ?thesis
    using e ld cl f3 upd by blast
qed

text \<open>
  Claim C4, amended. A right or bottom panel is inserted at the index \<open>idx\<close>, between 1
  and the number of slots, where no such panel stood, and the insertion is asked for
  again at the same index with the same tag. The second call inserts nothing: in both
  dimensions the count, the panel tags and the lengths of the ratio, space and override
  lists are those left by the first call, the gridspec keeps its geometry and the axes
  keep their subplotspecs. The space stored for the gap \<open>idx - 1\<close> is the override of
  the first call when one was given; otherwise it is the override of the second call
  (passed through \<open>units\<close>) when one is given, and the space of the second call when
  none is.
\<close>

theorem reinsert_existing_panel:
  assumes first: "insert_row_column units rc fig (s # rest) idx ratio1 space1 so1 fp = Inr (fig1, g1)"
    and second: "insert_row_column units rc fig1 (s # rest) idx ratio2 space2 so2 fp = Inr (fig2, g2)"
    and s: "s \<in> set ''rb''"
    and new: "slot_exists (a_panels (load_arrays (s \<in> set ''lr'') fig)) idx
                (if fp then ''f'' else [s]) = Inr False"
    and range: "1 \<le> idx" "idx \<le> int (length (a_panels (load_arrays (s \<in> set ''lr'') fig)))"
  shows "(\<forall>d. a_count (load_arrays d fig2) = a_count (load_arrays d fig1) \<and>
              a_panels (load_arrays d fig2) = a_panels (load_arrays d fig1) \<and>
              length (a_ratios (load_arrays d fig2)) = length (a_ratios (load_arrays d fig1)) \<and>
              length (a_spaces (load_arrays d fig2)) = length (a_spaces (load_arrays d fig1)) \<and>
              length (a_spaces_orig (load_arrays d fig2))
                = length (a_spaces_orig (load_arrays d fig1))) \<and>
         gs_nrows g2 = gs_nrows g1 \<and> gs_ncols g2 = gs_ncols g1 \<and>
         nrows_active g2 = nrows_active g1 \<and> ncols_active g2 = ncols_active g1 \<and>
         fig_axs fig2 = fig_axs fig1 \<and>
         py_nth (a_spaces (load_arrays (s \<in> set ''lr'') fig2)) (idx - 1)
           = Inr (case so1 of Some v \<Rightarrow> v
                  | None \<Rightarrow> (case so2 of Some v \<Rightarrow> units v | None \<Rightarrow> space2))"
proof -
  let ?lr = "s \<in> set ''lr''"
  let ?entry = "if fp then ''f'' else [s]"
  let ?A = "load_arrays ?lr fig"
  have off: "(if s \<in> set ''tl'' then 1 else 0) = (0::int)"
    "(if s \<in> set ''br'' then 1 else 0) = (1::int)"
    using s by auto
  obtain a1 ex1 i1 where
    e1: "edit_arrays units s idx ratio1 space1 so1 fp ?A = Inr (a1, ex1, i1)"
    and p1: "a_panels (load_arrays ?lr fig1) = a_panels a1"
    and so1: "a_spaces_orig (load_arrays ?lr fig1) = a_spaces_orig a1"
    and g1: "gridspec_main fig1 = g1"
    using insert_result_arrays [OF first refl] by blast
  have a1p: "a_panels a1 = py_insert (a_panels ?A) idx ?entry"
    and a1so: "a_spaces_orig a1 = py_insert (a_spaces_orig ?A) (idx - 1) so1"
    using e1 unfolding edit_arrays_new [OF new, of units ratio1 space1 so1] off by auto
  have nth: "py_nth (a_panels a1) idx = Inr ?entry"
    unfolding a1p by (rule py_nth_py_insert_ok) (use range in auto)
  have ex: "slot_exists (a_panels (load_arrays ?lr fig1)) idx ?entry = Inr True"
    unfolding p1 slot_exists_def using range nth by (simp add: a1p py_insert_length)
  obtain a2 ex2 i2 where
    e2: "edit_arrays units s idx ratio2 space2 so2 fp (load_arrays ?lr fig1) = Inr (a2, ex2, i2)"
    and l2: "a_panels (load_arrays ?lr fig2) = a_panels a2"
      "a_spaces (load_arrays ?lr fig2) = a_spaces a2"
      "a_spaces_orig (load_arrays ?lr fig2) = a_spaces_orig a2"
      "a_count (load_arrays ?lr fig2) = a_count a2"
      "length (a_ratios (load_arrays ?lr fig2)) = length (a_ratios a2)"
    and o2: "a_panels (load_arrays (\<not> ?lr) fig2) = a_panels (load_arrays (\<not> ?lr) fig1)"
      "a_spaces (load_arrays (\<not> ?lr) fig2) = a_spaces (load_arrays (\<not> ?lr) fig1)"
      "a_spaces_orig (load_arrays (\<not> ?lr) fig2) = a_spaces_orig (load_arrays (\<not> ?lr) fig1)"
      "a_count (load_arrays (\<not> ?lr) fig2) = a_count (load_arrays (\<not> ?lr) fig1)"
      "length (a_ratios (load_arrays (\<not> ?lr) fig2))
         = length (a_ratios (load_arrays (\<not> ?lr) fig1))"
    and d2: "ex2 \<longrightarrow> gs_nrows g2 = gs_nrows (gridspec_main fig1) \<and>
            gs_ncols g2 = gs_ncols (gridspec_main fig1) \<and>
            nrows_active g2 = nrows_active (gridspec_main fig1) \<and>
            ncols_active g2 = ncols_active (gridspec_main fig1) \<and>
            fig_axs fig2 = fig_axs fig1"
    using insert_result_arrays [OF second refl] by blast
  note x = edit_arrays_exists [OF ex e2 refl, unfolded off]
  have ex2: "ex2 = True" using x by simp
  obtain cur where cur: "py_nth (a_spaces_orig (load_arrays ?lr fig1)) (idx - 1) = Inr cur"
    and sp: "py_nth (a_spaces a2) (idx - 1)
              = Inr (case cur of Some v \<Rightarrow> v
                     | None \<Rightarrow> (case so2 of Some v \<Rightarrow> units v | None \<Rightarrow> space2))"
    using x by blast
  have "cur = so1"
  proof (rule py_nth_py_insert)
    show "0 \<le> idx - 1" using range by simp
    show "py_nth (py_insert (a_spaces_orig ?A) (idx - 1) so1) (idx - 1) = Inr cur"
      using cur unfolding so1 a1so .
  qed
  then have stored: "py_nth (a_spaces (load_arrays ?lr fig2)) (idx - 1)
           = Inr (case so1 of Some v \<Rightarrow> v
                  | None \<Rightarrow> (case so2 of Some v \<Rightarrow> units v | None \<Rightarrow> space2))"
    using sp l2 by simp
  have same: "a_count (load_arrays d fig2) = a_count (load_arrays d fig1) \<and>
              a_panels (load_arrays d fig2) = a_panels (load_arrays d fig1) \<and>
              length (a_ratios (load_arrays d fig2)) = length (a_ratios (load_arrays d fig1)) \<and>
              length (a_spaces (load_arrays d fig2)) = length (a_spaces (load_arrays d fig1)) \<and>
              length (a_spaces_orig (load_arrays d fig2))
                = length (a_spaces_orig (load_arrays d fig1))" for d
  proof (cases "d = ?lr")
    case True
    then show ?thesis using l2 x by simp
  next
    case False
    then have "d = (\<not> ?lr)" by auto
    then show ?thesis using o2 by simp
  qed
  show ?thesis
    using same stored d2 ex2 g1 by simp
qed

lemma insert_left0_first:
  "insert_row_column (\<lambda>x. x) 2 fig_2x2 ''left'' 0 (1 / 2) (1 / 10) None False
     = Inr (fig_l1, grid_l1)"
proof -
  let ?a = "\<lparr> a_panels = [[], ''l'', []], a_ratios = [2, 1 / 2, 2], a_spaces = [1 / 5, 1 / 10],
              a_spaces_orig = [None, None], a_count = 3 \<rparr>"
  let ?gk = "\<lparr>gk_ncols = 3, gk_nrows = 2, gk_wspace = [1 / 5, 1 / 10], gk_hspace = [1 / 5],
         gk_width_ratios = [2, 1 / 2, 2], gk_height_ratios = [2, 2],
         gk_left = 5 / 58, gk_bottom = 5 / 52, gk_right = 53 / 58, gk_top = 47 / 52\<rparr>"
  have e: "edit_arrays (\<lambda>x. x) CHR ''l'' 0 (1 / 2) (1 / 10) None False
             (load_arrays (CHR ''l'' \<in> set ''lr'') fig_2x2) = Inr (?a, False, 1)"
    by (simp add: edit_defs fig_2x2_def kw_2x2_after_def kw_2x2_def Let_def)
  have k: "subplots_kw (store_arrays (CHR ''l'' \<in> set ''lr'') ?a fig_2x2) = kw_l1"
    by (simp add: store_arrays_def fig_2x2_def kw_2x2_after_def kw_2x2_def kw_l1_def)
  have g: "subplots_geometry 2 kw_l1 = Inr ((29 / 5, 26 / 5), ?gk, kw_l1)"
    by (simp add: geom_defs kw_l1_def upt_rec Let_def)
  have f: "FlexibleGridSpec ?gk = Inr grid_l1"
    by (simp add: grid_defs grid_l1_def)
  have r: "emap (reassign_axes grid_l1 CHR ''l'' 1) (fig_axs fig_2x2)
             = Inr [Some (SubplotSpec (Flexible 3 5) 0 (Some 14))]"
    by (simp add: fig_2x2_def remap_defs grid_l1_def)
  have z: "(store_arrays (CHR ''l'' \<in> set ''lr'') ?a fig_2x2)
            \<lparr> subplots_kw := kw_l1, size_inches := (29 / 5, 26 / 5), gridspec_main := grid_l1,
              fig_axs := [Some (SubplotSpec (Flexible 3 5) 0 (Some 14))] \<rparr> = fig_l1"
    by (simp add: store_arrays_def fig_2x2_def fig_l1_def)
  have "insert_row_column (\<lambda>x. x) 2 fig_2x2 (CHR ''l'' # ''eft'') 0 (1 / 2) (1 / 10) None False
     = Inr ((store_arrays (CHR ''l'' \<in> set ''lr'') ?a fig_2x2)
            \<lparr> subplots_kw := kw_l1, size_inches := (29 / 5, 26 / 5), gridspec_main := grid_l1,
              fig_axs := [Some (SubplotSpec (Flexible 3 5) 0 (Some 14))] \<rparr>, grid_l1)"
    by (rule insert_row_column_newI [OF _ e _ f r]) (simp_all only: k g, simp)
  then show ?thesis by (simp only: z)
qed

lemma insert_left0_second:
  "insert_row_column (\<lambda>x. x) 2 fig_l1 ''left'' 0 (1 / 2) (3 / 10) None False
     = Inr (fig_l2, grid_l2)"
proof -
  let ?a = "\<lparr> a_panels = [[], ''l'', ''l'', []], a_ratios = [2, 1 / 2, 1 / 2, 2],
              a_spaces = [1 / 5, 3 / 10, 1 / 10],
              a_spaces_orig = [None, None, None], a_count = 4 \<rparr>"
  let ?gk = "\<lparr>gk_ncols = 4, gk_nrows = 2, gk_wspace = [1 / 5, 3 / 10, 1 / 10], gk_hspace = [1 / 5],
         gk_width_ratios = [2, 1 / 2, 1 / 2, 2], gk_height_ratios = [2, 2],
         gk_left = 5 / 66, gk_bottom = 5 / 52, gk_right = 61 / 66, gk_top = 47 / 52\<rparr>"
  have e: "edit_arrays (\<lambda>x. x) CHR ''l'' 0 (1 / 2) (3 / 10) None False
             (load_arrays (CHR ''l'' \<in> set ''lr'') fig_l1) = Inr (?a, False, 1)"
    by (simp add: edit_defs fig_l1_def kw_l1_def Let_def)
  have k: "subplots_kw (store_arrays (CHR ''l'' \<in> set ''lr'') ?a fig_l1) = kw_l2"
    by (simp add: store_arrays_def fig_l1_def kw_l1_def kw_l2_def)
  have g: "subplots_geometry 2 kw_l2 = Inr ((33 / 5, 26 / 5), ?gk, kw_l2)"
    by (simp add: geom_defs kw_l2_def upt_rec Let_def)
  have f: "FlexibleGridSpec ?gk = Inr grid_l2"
    by (simp add: grid_defs grid_l2_def)
  have r: "emap (reassign_axes grid_l2 CHR ''l'' 1) (fig_axs fig_l1)
             = Inr [Some (SubplotSpec (Flexible 3 7) 0 (Some 20))]"
    by (simp add: fig_l1_def remap_defs grid_l2_def)
  have z: "(store_arrays (CHR ''l'' \<in> set ''lr'') ?a fig_l1)
            \<lparr> subplots_kw := kw_l2, size_inches := (33 / 5, 26 / 5), gridspec_main := grid_l2,
              fig_axs := [Some (SubplotSpec (Flexible 3 7) 0 (Some 20))] \<rparr> = fig_l2"
    by (simp add: store_arrays_def fig_l1_def fig_l2_def)
  have "insert_row_column (\<lambda>x. x) 2 fig_l1 (CHR ''l'' # ''eft'') 0 (1 / 2) (3 / 10) None False
     = Inr ((store_arrays (CHR ''l'' \<in> set ''lr'') ?a fig_l1)
            \<lparr> subplots_kw := kw_l2, size_inches := (33 / 5, 26 / 5), gridspec_main := grid_l2,
              fig_axs := [Some (SubplotSpec (Flexible 3 7) 0 (Some 20))] \<rparr>, grid_l2)"
    by (rule insert_row_column_newI [OF _ e _ f r]) (simp_all only: k g, simp)
  then show ?thesis by (simp only: z)
qed

lemma insert_right2_first:
  "insert_row_column (\<lambda>x. x) 2 fig_2x2 ''right'' 2 (1 / 2) (1 / 10) None False
     = Inr (fig_r1, grid_r1)"
proof -
  let ?a = "\<lparr> a_panels = [[], [], ''r''], a_ratios = [2, 2, 1 / 2], a_spaces = [1 / 5, 1 / 10],
              a_spaces_orig = [None, None], a_count = 3 \<rparr>"
  let ?gk = "\<lparr>gk_ncols = 3, gk_nrows = 2, gk_wspace = [1 / 5, 1 / 10], gk_hspace = [1 / 5],
         gk_width_ratios = [2, 2, 1 / 2], gk_height_ratios = [2, 2],
         gk_left = 5 / 58, gk_bottom = 5 / 52, gk_right = 53 / 58, gk_top = 47 / 52\<rparr>"
  have e: "edit_arrays (\<lambda>x. x) CHR ''r'' 2 (1 / 2) (1 / 10) None False
             (load_arrays (CHR ''r'' \<in> set ''lr'') fig_2x2) = Inr (?a, False, 2)"
    by (simp add: edit_defs fig_2x2_def kw_2x2_after_def kw_2x2_def Let_def)
  have k: "subplots_kw (store_arrays (CHR ''r'' \<in> set ''lr'') ?a fig_2x2) = kw_r1"
    by (simp add: store_arrays_def fig_2x2_def kw_2x2_after_def kw_2x2_def kw_r1_def)
  have g: "subplots_geometry 2 kw_r1 = Inr ((29 / 5, 26 / 5), ?gk, kw_r1)"
    by (simp add: geom_defs kw_r1_def upt_rec Let_def)
  have f: "FlexibleGridSpec ?gk = Inr grid_r1"
    by (simp add: grid_defs grid_r1_def)
  have r: "emap (reassign_axes grid_r1 CHR ''r'' 2) (fig_axs fig_2x2)
             = Inr [Some (SubplotSpec (Flexible 3 5) 0 (Some 12))]"
    by (simp add: fig_2x2_def remap_defs grid_r1_def)
  have z: "(store_arrays (CHR ''r'' \<in> set ''lr'') ?a fig_2x2)
            \<lparr> subplots_kw := kw_r1, size_inches := (29 / 5, 26 / 5), gridspec_main := grid_r1,
              fig_axs := [Some (SubplotSpec (Flexible 3 5) 0 (Some 12))] \<rparr> = fig_r1"
    by (simp add: store_arrays_def fig_2x2_def fig_r1_def)
  have "insert_row_column (\<lambda>x. x) 2 fig_2x2 (CHR ''r'' # ''ight'') 2 (1 / 2) (1 / 10) None False
     = Inr ((store_arrays (CHR ''r'' \<in> set ''lr'') ?a fig_2x2)
            \<lparr> subplots_kw := kw_r1, size_inches := (29 / 5, 26 / 5), gridspec_main := grid_r1,
              fig_axs := [Some (SubplotSpec (Flexible 3 5) 0 (Some 12))] \<rparr>, grid_r1)"
    by (rule insert_row_column_newI [OF _ e _ f r]) (simp_all only: k g, simp)
  then show ?thesis by (simp only: z)
qed

lemma insert_right2_second:
  "insert_row_column (\<lambda>x. x) 2 fig_r1 ''right'' 2 (1 / 2) (3 / 10) None False
     = Inr (fig_r2, grid_r2)"
proof -
  let ?a = "\<lparr> a_panels = [[], [], ''r''], a_ratios = [2, 2, 1 / 2], a_spaces = [1 / 5, 3 / 10],
              a_spaces_orig = [None, None], a_count = 3 \<rparr>"
  let ?gk = "\<lparr>gk_ncols = 3, gk_nrows = 2, gk_wspace = [1 / 5, 3 / 10], gk_hspace = [1 / 5],
         gk_width_ratios = [2, 2, 1 / 2], gk_height_ratios = [2, 2],
         gk_left = 1 / 12, gk_bottom = 5 / 52, gk_right = 11 / 12, gk_top = 47 / 52\<rparr>"
  have e: "edit_arrays (\<lambda>x. x) CHR ''r'' 2 (1 / 2) (3 / 10) None False
             (load_arrays (CHR ''r'' \<in> set ''lr'') fig_r1) = Inr (?a, True, 2)"
    by (simp add: edit_defs fig_r1_def kw_r1_def Let_def)
  have k: "subplots_kw (store_arrays (CHR ''r'' \<in> set ''lr'') ?a fig_r1) = kw_r2"
    by (simp add: store_arrays_def fig_r1_def kw_r1_def kw_r2_def)
  have g: "subplots_geometry 2 kw_r2 = Inr ((6, 26 / 5), ?gk, kw_r2)"
    by (simp add: geom_defs kw_r2_def upt_rec Let_def)
  have u: "gridspec_update (gridspec_main fig_r1) ?gk = Inr grid_r2"
    by (simp add: grid_defs fig_r1_def grid_r1_def grid_r2_def)
  have z: "(store_arrays (CHR ''r'' \<in> set ''lr'') ?a fig_r1)
            \<lparr> subplots_kw := kw_r2, size_inches := (6, 26 / 5), gridspec_main := grid_r2 \<rparr>
           = fig_r2"
    by (simp add: store_arrays_def fig_r1_def fig_r2_def)
  have "insert_row_column (\<lambda>x. x) 2 fig_r1 (CHR ''r'' # ''ight'') 2 (1 / 2) (3 / 10) None False
     = Inr ((store_arrays (CHR ''r'' \<in> set ''lr'') ?a fig_r1)
            \<lparr> subplots_kw := kw_r2, size_inches := (6, 26 / 5), gridspec_main := grid_r2 \<rparr>,
            grid_r2)"
    by (rule insert_row_column_existsI [OF _ e _ u]) (simp_all only: k g, simp)
  then show ?thesis by (simp only: z)
qed

text \<open>
  Claim C4, as stated, fails for a left panel: the first call at index 0 puts the panel
  into slot 1, so the second call at index 0 finds no panel in slot 0 and inserts again.
  The columns grow from 3 to 4 and the gridspec from 5 to 7 columns.
\<close>

theorem reinsert_left_inserts_again:
  "insert_row_column (\<lambda>x. x) 2 fig_2x2 ''left'' 0 (1 / 2) (1 / 10) None False
     = Inr (fig_l1, grid_l1) \<and>
   insert_row_column (\<lambda>x. x) 2 fig_l1 ''left'' 0 (1 / 2) (3 / 10) None False
     = Inr (fig_l2, grid_l2) \<and>
   ncols (subplots_kw fig_l1) = 3 \<and> ncols (subplots_kw fig_l2) = 4 \<and>
   gs_ncols grid_l1 = 5 \<and> gs_ncols grid_l2 = 7 \<and>
   wpanels (subplots_kw fig_l1) = [[], ''l'', []] \<and>
   wpanels (subplots_kw fig_l2) = [[], ''l'', ''l'', []] \<and>
   length (wratios (subplots_kw fig_l1)) = 3 \<and> length (wratios (subplots_kw fig_l2)) = 4 \<and>
   length (wspace (subplots_kw fig_l1)) = 2 \<and> length (wspace (subplots_kw fig_l2)) = 3"
  using insert_left0_first insert_left0_second
  by (simp add: fig_l1_def fig_l2_def kw_l1_def kw_l2_def grid_l1_def grid_l2_def)

theorem reinsert_existing_panel_witness:
  "py_nth (a_spaces (load_arrays True fig_r2)) 1 = Inr (3 / 10) \<and>
   a_count (load_arrays True fig_r2) = a_count (load_arrays True fig_r1) \<and>
   a_panels (load_arrays True fig_r2) = a_panels (load_arrays True fig_r1) \<and>
   gs_ncols grid_r2 = gs_ncols grid_r1 \<and> ncols_active grid_r2 = ncols_active grid_r1"
proof -
  have new: "slot_exists (a_panels (load_arrays (CHR ''r'' \<in> set ''lr'') fig_2x2)) 2
                (if False then ''f'' else [CHR ''r'']) = Inr False"
    by (simp add: slot_exists_def load_arrays_def fig_2x2_def kw_2x2_after_def kw_2x2_def)
  have range: "(1::int) \<le> 2"
    "2 \<le> int (length (a_panels (load_arrays (CHR ''r'' \<in> set ''lr'') fig_2x2)))"
    by (simp_all add: load_arrays_def fig_2x2_def kw_2x2_after_def kw_2x2_def)
  have s: "CHR ''r'' \<in> set ''rb''" by simp
  note t = reinsert_existing_panel [OF insert_right2_first [simplified]
      insert_right2_second [simplified] s new range]
  from t have a: "py_nth (a_spaces (load_arrays (CHR ''r'' \<in> set ''lr'') fig_r2)) (2 - 1)
           = Inr (case (None :: real option) of Some v \<Rightarrow> v
                  | None \<Rightarrow> (case (None :: real option) of Some v \<Rightarrow> v | None \<Rightarrow> 3 / 10))"
    by blast
  from t have b: "a_count (load_arrays True fig_r2) = a_count (load_arrays True fig_r1) \<and>
              a_panels (load_arrays True fig_r2) = a_panels (load_arrays True fig_r1)"
    by blast
  from t have c: "gs_ncols grid_r2 = gs_ncols grid_r1 \<and> ncols_active grid_r2 = ncols_active grid_r1"
    by blast
  show ?thesis
    using a b c by simp
qed


section \<open>Properties of the tight layout spacing\<close>

lemma py_min_Min: "xs \<noteq> [] \<Longrightarrow> py_min xs = Min (set xs)"
proof (cases xs)
  case Nil
  assume "xs \<noteq> []"
  with Nil show ?thesis by simp
next
  case (Cons a list)
  have "Min (set (a # list)) = fold min list a"
    by (rule Min.set_eq_fold)
  with Cons show ?thesis by (simp add: py_min_def)
qed

lemma list_get_Inr: "list_get xs i = Inr v \<longleftrightarrow> i < length xs \<and> v = xs ! i"
  by (auto simp: list_get_def)

lemma pad_for_Inr:
  assumes "pad_for axpad panelpad panels i = Inr pad"
  shows "pad = (if (panels ! i \<in> {''l'', ''t''} \<and> panels ! (i + 1) \<in> {''l'', ''t'', []}) \<or>
                   (panels ! i \<in> {[], ''r'', ''b''} \<and> panels ! (i + 1) \<in> {''r'', ''b''}) \<or>
                   (panels ! i = ''f'' \<and> panels ! (i + 1) = ''f'')
                then panelpad else axpad)"
proof -
  obtain p where p: "list_get panels i = Inr p"
    and r: "(if p \<in> {''l'', ''t''} then
         ebind (list_get panels (i + 1)) (\<lambda>q.
           Inr (if q \<in> {''l'', ''t'', []} then panelpad else axpad))
       else if p \<in> {[], ''r'', ''b''} then
         ebind (list_get panels (i + 1)) (\<lambda>q.
           Inr (if q \<in> {''r'', ''b''} then panelpad else axpad))
       else if p = ''f'' then
         ebind (list_get panels (i + 1)) (\<lambda>q.
           Inr (if q = ''f'' then panelpad else axpad))
       else Inr axpad) = Inr pad"
    using assms unfolding pad_for_def ebind_eq_Inr by blast
  have pi: "p = panels ! i" using p by (simp add: list_get_Inr)
  consider (lt) "p \<in> {''l'', ''t''}" | (mrb) "p \<in> {[], ''r'', ''b''}" | (f) "p = ''f''"
    | (other) "p \<notin> {''l'', ''t''}" "p \<notin> {[], ''r'', ''b''}" "p \<noteq> ''f''"
    by blast
  then show ?thesis
  proof cases
    case lt
    then have "ebind (list_get panels (i + 1)) (\<lambda>q.
           Inr (if q \<in> {''l'', ''t'', []} then panelpad else axpad)) = Inr pad"
      using r by simp
    then obtain q where "list_get panels (i + 1) = Inr q"
      and "pad = (if q \<in> {''l'', ''t'', []} then panelpad else axpad)"
      unfolding ebind_eq_Inr by auto
    then show ?thesis using lt pi by (auto simp: list_get_Inr)
  next
    case mrb
    then have n: "p \<notin> {''l'', ''t''}" by auto
    then have "ebind (list_get panels (i + 1)) (\<lambda>q.
           Inr (if q \<in> {''r'', ''b''} then panelpad else axpad)) = Inr pad"
      using r mrb by simp
    then obtain q where "list_get panels (i + 1) = Inr q"
      and "pad = (if q \<in> {''r'', ''b''} then panelpad else axpad)"
      unfolding ebind_eq_Inr by auto
    then show ?thesis using mrb n pi by (auto simp: list_get_Inr)
  next
    case f
    then have "ebind (list_get panels (i + 1)) (\<lambda>q.
           Inr (if q = ''f'' then panelpad else axpad)) = Inr pad"
      using r by simp
    then obtain q where "list_get panels (i + 1) = Inr q"
      and "pad = (if q = ''f'' then panelpad else axpad)"
      unfolding ebind_eq_Inr by auto
    then show ?thesis using f pi by (auto simp: list_get_Inr)
  next
    case other
    then have "pad = axpad" using r by simp
    then show ?thesis using other pi by auto
  qed
qed

text \<open>
  Claim C7, amended. After a pass over one dimension every gap \<open>i\<close> that the loop
  visits, and for which at least one pair of abutting groups was measured, holds the
  user's override when there is one, and otherwise
  \<open>max 0 (space - separation + pad)\<close>, where \<open>space\<close> is the gap as requested,
  \<open>separation\<close> the least measured separation of the groups, and \<open>pad\<close> is
  \<^verbatim>\<open>panelpad\<close> exactly when the gap lies between a left or top panel and the left/top
  panel or main slot after it, between a main slot or right/bottom panel and the
  right/bottom panel after it, or between two figure panels; in every other case,
  between two main slots among them, \<open>pad\<close> is \<^verbatim>\<open>axpad\<close>. A gap without a measured
  pair keeps its requested size, and the list keeps its length.
\<close>

theorem tight_space_value:
  assumes run: "tight_spaces axpad panelpad dpi along_x panels axs nacross ispace ispace_orig
                  = Inr jspace"
    and i: "i < length ispace" "i < length ispace_orig"
  shows "\<exists>pad jspaces.
     pad_for axpad panelpad panels i = Inr pad \<and>
     separations (map (if along_x then range_tightbbox_x else range_tightbbox_y) axs) dpi
       (abutting_groups along_x
          (map (if along_x then range_gridspec_x else range_gridspec_y) axs)
          (map (if along_x then range_gridspec_y else range_gridspec_x) axs) nacross (int i))
       = Inr jspaces \<and>
     jspace ! i =
       (if jspaces = [] then ispace ! i
        else case ispace_orig ! i of
               Some v \<Rightarrow> v
             | None \<Rightarrow> max 0 (ispace ! i - Min (set jspaces) + pad)) \<and>
     pad = (if (panels ! i \<in> {''l'', ''t''} \<and> panels ! (i + 1) \<in> {''l'', ''t'', []}) \<or>
               (panels ! i \<in> {[], ''r'', ''b''} \<and> panels ! (i + 1) \<in> {''r'', ''b''}) \<or>
               (panels ! i = ''f'' \<and> panels ! (i + 1) = ''f'')
            then panelpad else axpad) \<and>
     (panels ! i = [] \<and> panels ! (i + 1) = [] \<longrightarrow> pad = axpad) \<and>
     length jspace = length ispace"
proof -
  let ?n = "min (length ispace) (length ispace_orig)"
  let ?f = "tight_space axpad panelpad dpi along_x panels axs nacross ispace ispace_orig"
  obtain new where em: "emap ?f [0..<?n] = Inr new" and js: "jspace = new @ drop ?n ispace"
    using run unfolding tight_spaces_def Let_def ebind_eq_Inr by auto
  have len: "length new = ?n" using emap_Inr [OF em] by simp
  have "i < ?n" using i by simp
  then have fi: "?f i = Inr (new ! i)" and ji: "jspace ! i = new ! i"
    using emap_Inr [OF em] js len by (auto simp: nth_append)
  obtain pad jspaces where pad: "pad_for axpad panelpad panels i = Inr pad"
    and sep: "separations (map (if along_x then range_tightbbox_x else range_tightbbox_y) axs) dpi
       (abutting_groups along_x
          (map (if along_x then range_gridspec_x else range_gridspec_y) axs)
          (map (if along_x then range_gridspec_y else range_gridspec_x) axs) nacross (int i))
       = Inr jspaces"
    and v: "new ! i = (if jspaces \<noteq> [] then
               (case ispace_orig ! i of
                  Some v \<Rightarrow> v
                | None \<Rightarrow> max 0 (ispace ! i - py_min jspaces + pad))
             else ispace ! i)"
    using fi unfolding tight_space_def Let_def ebind_eq_Inr by auto
  have v': "jspace ! i =
       (if jspaces = [] then ispace ! i
        else case ispace_orig ! i of
               Some v \<Rightarrow> v
             | None \<Rightarrow> max 0 (ispace ! i - Min (set jspaces) + pad))"
  proof (cases "jspaces = []")
    case True
    with v ji show ?thesis by simp
  next
    case False
    then have "py_min jspaces = Min (set jspaces)" by (rule py_min_Min)
    with v ji False show ?thesis by (simp split: option.splits)
  qed
  note p = pad_for_Inr [OF pad]
  have main: "panels ! i = [] \<and> panels ! (i + 1) = [] \<longrightarrow> pad = axpad"
    using p by auto
  have "length jspace = length ispace"
    using js len by simp
  with pad sep v' p main show ?thesis by blast
qed

lemma row_groups:
  "abutting_groups True (map range_gridspec_x axs_row) (map range_gridspec_y axs_row) 1 0
     = [([0], [Suc 0])]"
  "abutting_groups True (map range_gridspec_x axs_row) (map range_gridspec_y axs_row) 1 1
     = [([Suc 0], [2])]"
  by (simp_all add: abutting_groups_def abutting_pair_def axs_row_def upt_rec upto.simps Let_def)

lemma row_separations:
  "separations (map range_tightbbox_x axs_row) 100 [([0], [Suc 0])] = Inr [1 / 10]"
  "separations (map range_tightbbox_x axs_row) 100 [([Suc 0], [2])] = Inr [1 / 5]"
  by (simp_all add: separations_def py_max_def py_min_def pdiv_def axs_row_def Let_def)

lemma row_pads:
  "pad_for (1 / 20) (1 / 50) [[], ''r'', []] 0 = Inr (1 / 50)"
  "pad_for (1 / 20) (1 / 50) [[], ''r'', []] (Suc 0) = Inr (1 / 20)"
  by (simp_all add: pad_for_def list_get_def)

lemma row_spaces:
  "tight_space (1 / 20) (1 / 50) 100 True [[], ''r'', []] axs_row 1 [1 / 10, 3 / 10]
     [None, None] 0 = Inr (1 / 50)"
  "tight_space (1 / 20) (1 / 50) 100 True [[], ''r'', []] axs_row 1 [1 / 10, 3 / 10]
     [None, None] (Suc 0) = Inr (3 / 20)"
  unfolding tight_space_def
  by (simp_all add: row_pads row_groups row_separations py_min_def Let_def)

lemma tight_row_example:
  "tight_spaces (1 / 20) (1 / 50) 100 True [[], ''r'', []] axs_row 1 [1 / 10, 3 / 10] [None, None]
     = Inr [1 / 50, 3 / 20]"
  unfolding tight_spaces_def
  by (simp add: upt_rec row_spaces)

text \<open>
  Claim C7, as stated, fails for the pad of a gap next to a panel: with the tags
  \<^verbatim>\<open>['', 'r', '']\<close> the gap 1 lies between the right panel of the first column and the
  main axes of the next column, and the loop uses \<^verbatim>\<open>axpad\<close> for it. With a request of
  0.3, a measured separation of 0.2, \<^verbatim>\<open>axpad\<close> 0.05 and \<^verbatim>\<open>panelpad\<close> 0.02 the gap
  becomes 0.15, where the pad of a panel gap would give 0.12.
\<close>

theorem panel_gap_uses_axpad:
  "tight_spaces (1 / 20) (1 / 50) 100 True [[], ''r'', []] axs_row 1 [1 / 10, 3 / 10] [None, None]
     = Inr [1 / 50, 3 / 20] \<and>
   max 0 (3 / 10 - (170 - 150) / 100 + 1 / 20) = (3 / 20 :: real) \<and>
   max 0 (3 / 10 - (170 - 150) / 100 + 1 / 50) = (3 / 25 :: real)"
  using tight_row_example by simp

theorem tight_space_value_witness:
  "pad_for (1 / 20) (1 / 50) [[], ''r'', []] (Suc 0) = Inr (1 / 20) \<and>
   separations (map range_tightbbox_x axs_row) 100 [([Suc 0], [2])] = Inr [1 / 5] \<and>
   [1 / 50, 3 / 20] ! Suc 0 = max 0 (3 / 10 - Min (set [1 / 5]) + 1 / 20 :: real)"
  using tight_space_value [OF tight_row_example, of "Suc 0"]
  by (simp add: row_groups row_separations row_pads)

end
